theory Spec2Isabelle
  imports Main "HOL-Library.Multiset" "HOL-Library.AList" "HOL-Library.Sublist"
begin

section \<open>Data model\<close>

text \<open>
  A segment is the dictionary that \<^verbatim>\<open>process_video\<close> and \<^verbatim>\<open>parse_silence_data\<close>
  build and that \<^verbatim>\<open>output.json\<close> stores. The code reads five keys: \<^verbatim>\<open>start\<close>,
  \<^verbatim>\<open>end\<close>, \<^verbatim>\<open>type\<close>, \<^verbatim>\<open>text\<close> and \<^verbatim>\<open>classification\<close>. Each is an option:
  \<open>None\<close> is an absent key, so that \<^verbatim>\<open>seg["start"]\<close> on a dictionary without it is
  the \<^verbatim>\<open>KeyError\<close> branch of the model and \<^verbatim>\<open>entry.get("classification")\<close> is the
  field itself. Timestamps are values of a type \<open>'n\<close>; where the code orders them
  (\<^verbatim>\<open>sorted\<close>) the type is a linear order, as Python's floats are apart from NaN.
  Any further key of a dictionary lives in the record's extension, which no function
  of the program reads or writes.
\<close>

record 'n segment =
  seg_start :: "'n option"
  seg_end :: "'n option"
  seg_type :: "string option"
  seg_text :: "string option"
  seg_classification :: "string option"

datatype error =
    KeyError string
  | ValueError
  | TypeError
  | AttributeError
  | FileNotFoundError

text \<open>
  What \<^verbatim>\<open>json.load\<close> returns for \<^verbatim>\<open>output.json\<close>: a list of segments, or a mapping
  from names to lists of segments (the \<^verbatim>\<open>{"transcription": [...]}\<close> shape).
\<close>

datatype 'n doc =
    ListDoc "'n segment list"
  | DictDoc "(string \<times> 'n segment list) list"

text \<open>
  What a run leaves behind: files written, processes started, lines printed. What it
  finds: the two pickled artefacts, the transcoder's executable and the timeline file.
\<close>

datatype msg =
    MergedSaved
  | LoadingModel
  | Transforming
  | Updating
  | ClassificationCompleted
  | NoSpeechSegments
  | NoRelevantSegments
  | TrimmedSaved string

datatype event =
    Wrote string
  | Ran "string list"
  | Printed msg

record 'n world =
  model_file :: bool
  vectorizer_file :: bool
  ffmpeg_installed :: bool
  output_json :: "'n doc option"
  events :: "event list"

text \<open>
  The two dictionaries that the program itself builds: \<^verbatim>\<open>process_video\<close> makes
  \<^verbatim>\<open>{"start": .., "end": .., "type": "speech", "text": ..}\<close> for each transcribed
  segment, \<^verbatim>\<open>parse_silence_data\<close> makes \<^verbatim>\<open>{"start": .., "end": .., "type": "silence"}\<close>.
\<close>

definition speech :: "'n \<Rightarrow> 'n \<Rightarrow> string \<Rightarrow> 'n segment" where
  "speech start end' txt =
     \<lparr>seg_start = Some start, seg_end = Some end', seg_type = Some ''speech'',
      seg_text = Some txt, seg_classification = None\<rparr>"

definition silence :: "'n \<Rightarrow> 'n \<Rightarrow> 'n segment" where
  "silence start end' =
     \<lparr>seg_start = Some start, seg_end = Some end', seg_type = Some ''silence'',
      seg_text = None, seg_classification = None\<rparr>"

text \<open>
  The comprehension of \<^verbatim>\<open>process_video\<close> over the segments of the transcription, each
  given by its start, its end and its text. The transcription itself is a parameter.
\<close>

definition process_video :: "('n \<times> 'n \<times> string) list \<Rightarrow> 'n segment list" where
  "process_video segments = map (\<lambda>(start, end', txt). speech start end' txt) segments"

section \<open>Silence parser: \<^verbatim>\<open>parse_silence_data\<close>\<close>

text \<open>
  \<^verbatim>\<open>re.findall(r"silence_start: (\d+\.\d+)", ffmpeg_output)\<close> scans the text from left
  to right. At a position where the literal, one or more digits, a point and one or more
  digits follow, it records the digits-point-digits text and goes on behind the match;
  elsewhere it moves one character on. Both \<^verbatim>\<open>\d+\<close> are greedy, and no shorter choice
  of the first can match, since a point must follow it. Characters are bytes here, so
  \<^verbatim>\<open>\d\<close> is an ASCII digit, as in the transcoder's diagnostics.
\<close>

definition is_digit :: "char \<Rightarrow> bool" where
  "is_digit c = (c \<in> set ''0123456789'')"

definition match_number :: "string \<Rightarrow> (string \<times> string) option" where
  "match_number s =
     (let d1 = takeWhile is_digit s in
      if d1 = [] then None
      else (case dropWhile is_digit s of
              [] \<Rightarrow> None
            | c # r \<Rightarrow>
                if c \<noteq> CHR ''.'' then None
                else (let d2 = takeWhile is_digit r in
                      if d2 = [] then None
                      else Some (d1 @ CHR ''.'' # d2, dropWhile is_digit r))))"

definition match_at :: "string \<Rightarrow> string \<Rightarrow> (string \<times> string) option" where
  "match_at lit s =
     (if take (length lit) s = lit then match_number (drop (length lit) s) else None)"

function findall :: "string \<Rightarrow> string \<Rightarrow> string list" where
  "findall lit [] = []"
| "findall lit (c # cs) =
     (case match_at lit (c # cs) of
        Some (cap, rest) \<Rightarrow> cap # findall lit rest
      | None \<Rightarrow> findall lit cs)"
  by pat_completeness auto
termination
proof (relation "measure (\<lambda>(lit, s). length s)")
  fix lit :: string and c :: char and cs x2 cap rest
  assume m: "match_at lit (c # cs) = Some x2" and x: "(cap, rest) = x2"
  have n: "length v < length t" if "match_number t = Some (u, v)" for t u v
  proof -
    from that obtain d r where d: "dropWhile is_digit t = d # r" and v: "v = dropWhile is_digit r"
      by (auto simp: match_number_def Let_def split: if_splits list.splits)
    have "length (d # r) \<le> length t"
      unfolding d [symmetric] by (rule length_dropWhile_le)
    moreover have "length v \<le> length r"
      unfolding v by (rule length_dropWhile_le)
    ultimately show ?thesis by simp
  qed
  from m x have "match_number (drop (length lit) (c # cs)) = Some (cap, rest)"
    by (auto simp: match_at_def split: if_splits)
  from n [OF this] have "length rest < length (c # cs) - length lit"
    by simp
  then have "length rest < length (c # cs)"
    by arith
  then show "((lit, rest), (lit, c # cs)) \<in> measure (\<lambda>(lit, s). length s)"
    by simp
qed simp_all

text \<open>
  \<^verbatim>\<open>float(start)\<close> is the parameter \<open>float\<close>: the text of a match always parses, so
  the conversion cannot raise.
\<close>

definition parse_silence_data :: "(string \<Rightarrow> 'n) \<Rightarrow> string \<Rightarrow> 'n segment list" where
  "parse_silence_data float ffmpeg_output =
     (let silence_start_times = findall ''silence_start: '' ffmpeg_output;
          silence_end_times = findall ''silence_end: '' ffmpeg_output
      in map (\<lambda>(start, end'). silence (float start) (float end'))
             (zip silence_start_times silence_end_times))"





section \<open>Timeline merger: \<^verbatim>\<open>merge_and_save_json\<close>\<close>

text \<open>
  \<^verbatim>\<open>sorted(speech_data + silence_data, key=lambda x: x["start"])\<close>: the keys are
  computed first, so a segment without \<^verbatim>\<open>start\<close> raises \<^verbatim>\<open>KeyError\<close>; then the
  list is sorted by key. Python's sort is stable, and so is \<^const>\<open>sort_key\<close>.
\<close>

definition all_data :: "('n::linorder) segment list \<Rightarrow> 'n segment list \<Rightarrow> error + 'n segment list" where
  "all_data speech_data silence_data =
     (if list_all (\<lambda>x. seg_start x \<noteq> None) (speech_data @ silence_data)
      then Inr (sort_key (\<lambda>x. the (seg_start x)) (speech_data @ silence_data))
      else Inl (KeyError ''start''))"

definition merge_and_save_json ::
  "('n::linorder) segment list \<Rightarrow> 'n segment list \<Rightarrow> 'n world \<Rightarrow> error + 'n world" where
  "merge_and_save_json speech_data silence_data w =
     (case all_data speech_data silence_data of
        Inl e \<Rightarrow> Inl e
      | Inr d \<Rightarrow> Inr (w\<lparr>output_json := Some (ListDoc d),
                        events := events w @ [Wrote ''output.json'', Printed MergedSaved]\<rparr>))"

section \<open>Classification gate: \<^verbatim>\<open>classify\<close>\<close>

text \<open>
  The branch on the shape of the loaded data. A mapping without the key
  \<^verbatim>\<open>transcription\<close> is neither accepted shape and raises \<^verbatim>\<open>ValueError\<close>.
\<close>

definition segments_of :: "'n doc \<Rightarrow> error + 'n segment list" where
  "segments_of data =
     (case data of
        DictDoc d \<Rightarrow> (case map_of d ''transcription'' of
                        Some segs \<Rightarrow> Inr segs
                      | None \<Rightarrow> Inl ValueError)
      | ListDoc segs \<Rightarrow> Inr segs)"

text \<open>
  \<^verbatim>\<open>speech_segments\<close> is a list of references to dictionaries of the loaded data, not of
  copies: here, the list of their positions. \<^verbatim>\<open>seg["type"]\<close> raises when a segment has
  no type, \<^verbatim>\<open>seg["text"]\<close> when a speech segment has no text.
\<close>

definition speech_segments :: "'n segment list \<Rightarrow> error + nat list" where
  "speech_segments segs =
     (if list_all (\<lambda>seg. seg_type seg \<noteq> None) segs
      then Inr (filter (\<lambda>i. seg_type (segs ! i) = Some ''speech'') [0..<length segs])
      else Inl (KeyError ''type''))"

definition texts_of :: "'n segment list \<Rightarrow> nat list \<Rightarrow> error + string list" where
  "texts_of segs idx =
     (if list_all (\<lambda>i. seg_text (segs ! i) \<noteq> None) idx
      then Inr (map (\<lambda>i. the (seg_text (segs ! i))) idx)
      else Inl (KeyError ''text''))"

text \<open>
  \<^verbatim>\<open>for segment, label in zip(speech_segments, predictions)\<close>: the assignment goes
  through the reference, so it changes the dictionary inside the loaded data.
\<close>

definition set_label :: "int \<Rightarrow> 'n segment \<Rightarrow> 'n segment" where
  "set_label label seg =
     seg\<lparr>seg_classification := Some (if label = 1 then ''Relevant'' else ''Irrelevant'')\<rparr>"

definition label_segments :: "'n segment list \<Rightarrow> nat list \<Rightarrow> int list \<Rightarrow> 'n segment list" where
  "label_segments segs idx predictions =
     fold (\<lambda>(i, label) d. d[i := set_label label (d ! i)]) (zip idx predictions) segs"

text \<open>The loaded data after the loop, as \<^verbatim>\<open>json.dump(data, f)\<close> writes it.\<close>

definition with_segments :: "'n doc \<Rightarrow> 'n segment list \<Rightarrow> 'n doc" where
  "with_segments data segs =
     (case data of
        DictDoc d \<Rightarrow> DictDoc (AList.update ''transcription'' segs d)
      | ListDoc _ \<Rightarrow> ListDoc segs)"

text \<open>
  The two pickled artefacts are the parameter \<open>predict\<close>: the labels that
  \<^verbatim>\<open>svm_model.predict(tfidf_vectorizer.transform(texts))\<close> returns for a batch of texts.
  Every \<^verbatim>\<open>raise\<close> of the function comes before its only write.
\<close>

definition classify :: "(string list \<Rightarrow> int list) \<Rightarrow> 'n world \<Rightarrow> error + 'n world" where
  "classify predict w =
     (if \<not> model_file w \<or> \<not> vectorizer_file w then Inl FileNotFoundError
      else (case output_json w of
              None \<Rightarrow> Inl FileNotFoundError
            | Some data \<Rightarrow>
               (case segments_of data of
                  Inl e \<Rightarrow> Inl e
                | Inr segs \<Rightarrow>
                   (case speech_segments segs of
                      Inl e \<Rightarrow> Inl e
                    | Inr idx \<Rightarrow>
                       (case texts_of segs idx of
                          Inl e \<Rightarrow> Inl e
                        | Inr texts \<Rightarrow>
                            if texts \<noteq> [] then
                              Inr (w\<lparr>output_json :=
                                       Some (with_segments data
                                               (label_segments segs idx (predict texts))),
                                     events := events w @
                                       [Printed LoadingModel, Printed Transforming,
                                        Printed Updating, Wrote ''output.json'',
                                        Printed ClassificationCompleted]\<rparr>)
                            else
                              Inr (w\<lparr>events := events w @
                                       [Printed LoadingModel, Printed NoSpeechSegments]\<rparr>))))))"

section \<open>Cut planner and filter-graph generator: \<^verbatim>\<open>trim_segments\<close>\<close>

text \<open>
  The comprehension over the loaded list: \<^verbatim>\<open>entry["start"]\<close> and \<^verbatim>\<open>entry["end"]\<close>
  are read, in this order, only for an entry that passes the test.
\<close>

fun keep_segments :: "'n segment list \<Rightarrow> error + ('n \<times> 'n) list" where
  "keep_segments [] = Inr []"
| "keep_segments (entry # data) =
     (if seg_classification entry = Some ''Relevant'' then
        (case seg_start entry of
           None \<Rightarrow> Inl (KeyError ''start'')
         | Some start \<Rightarrow>
            (case seg_end entry of
               None \<Rightarrow> Inl (KeyError ''end'')
             | Some end' \<Rightarrow>
                (case keep_segments data of
                   Inl e \<Rightarrow> Inl e
                 | Inr keep \<Rightarrow> Inr ((start, end') # keep))))
      else keep_segments data)"

text \<open>
  \<^verbatim>\<open>for entry in data\<close> over a mapping yields its keys, which are strings and have no
  \<^verbatim>\<open>get\<close>; over an empty mapping it yields nothing.
\<close>

definition keep_segments_of :: "'n doc \<Rightarrow> error + ('n \<times> 'n) list" where
  "keep_segments_of data =
     (case data of
        ListDoc segs \<Rightarrow> keep_segments segs
      | DictDoc d \<Rightarrow> (if d = [] then Inr [] else Inl AttributeError))"

text \<open>\<^verbatim>\<open>{idx}\<close> in a format string: the decimal digits of the index.\<close>

definition digit_char :: "nat \<Rightarrow> char" where
  "digit_char d = ''0123456789'' ! d"

fun show_nat :: "nat \<Rightarrow> string" where
  "show_nat n = (if n < 10 then [digit_char n] else show_nat (n div 10) @ [digit_char (n mod 10)])"

declare show_nat.simps [simp del]

text \<open>
  \<^verbatim>\<open>{start}\<close> and \<^verbatim>\<open>{end}\<close> are the parameter \<open>str\<close>, Python's text of a number.
\<close>

definition filter_complex :: "('n \<Rightarrow> string) \<Rightarrow> ('n \<times> 'n) list \<Rightarrow> string" where
  "filter_complex str keep =
     concat (map (\<lambda>(idx, (start, end')).
                    ''[0:v]trim=start='' @ str start @ '':end='' @ str end'
                      @ '',setpts=PTS-STARTPTS[v'' @ show_nat idx @ '']; ''
                    @ ''[0:a]atrim=start='' @ str start @ '':end='' @ str end'
                      @ '',asetpts=PTS-STARTPTS[a'' @ show_nat idx @ '']; '')
                 (enumerate 0 keep))"

definition concat_v :: "('n \<times> 'n) list \<Rightarrow> string" where
  "concat_v keep =
     concat (map (\<lambda>idx. ''[v'' @ show_nat idx @ ''][a'' @ show_nat idx @ '']'')
                 [0..<length keep])
     @ ''concat=n='' @ show_nat (length keep) @ '':v=1:a=1 [v][a]''"

definition trim_command :: "('n \<Rightarrow> string) \<Rightarrow> string \<Rightarrow> string \<Rightarrow> ('n \<times> 'n) list \<Rightarrow> string list" where
  "trim_command str input_vid_path output_vid_path keep =
     [''ffmpeg'', ''-i'', input_vid_path, ''-filter_complex'',
      filter_complex str keep @ concat_v keep,
      ''-map'', ''[v]'', ''-map'', ''[a]'', output_vid_path, ''-y'']"

text \<open>
  The function returns \<^verbatim>\<open>None\<close> when nothing is kept, the output path otherwise.
  \<^verbatim>\<open>subprocess.run\<close> raises \<^verbatim>\<open>FileNotFoundError\<close> when the executable cannot be
  started; it is called without \<^verbatim>\<open>check\<close>, so the exit status of a transcoder that
  did start raises nothing.
\<close>

definition trim_segments ::
  "('n \<Rightarrow> string) \<Rightarrow> string \<Rightarrow> string \<Rightarrow> 'n world \<Rightarrow> error + ('n world \<times> string option)" where
  "trim_segments str input_vid_path output_vid_path w =
     (case output_json w of
        None \<Rightarrow> Inl FileNotFoundError
      | Some data \<Rightarrow>
         (case keep_segments_of data of
            Inl e \<Rightarrow> Inl e
          | Inr keep \<Rightarrow>
              if keep = [] then
                Inr (w\<lparr>events := events w @ [Printed NoRelevantSegments]\<rparr>, None)
              else if \<not> ffmpeg_installed w then Inl FileNotFoundError
              else
                Inr (w\<lparr>events := events w @
                         [Ran (trim_command str input_vid_path output_vid_path keep),
                          Printed (TrimmedSaved output_vid_path)]\<rparr>,
                     Some output_vid_path)))"

section \<open>The steps of the main program after classification\<close>

text \<open>
  \<^verbatim>\<open>subprocess.run\<close> raises \<^verbatim>\<open>TypeError\<close> for an argument list that holds \<^verbatim>\<open>None\<close>,
  before it looks for the executable and before any process is started.
\<close>

definition vid_to_aud :: "string option \<Rightarrow> string \<Rightarrow> 'n world \<Rightarrow> error + ('n world \<times> string)" where
  "vid_to_aud input_video_path output_audio_path w =
     (case input_video_path of
        None \<Rightarrow> Inl TypeError
      | Some p \<Rightarrow>
          if \<not> ffmpeg_installed w then Inl FileNotFoundError
          else
            Inr (w\<lparr>events := events w @
                     [Ran [''ffmpeg'', ''-i'', p, ''-q:a'', ''0'', ''-map'', ''a'',
                           output_audio_path, ''-y'']]\<rparr>,
                 output_audio_path))"

text \<open>
  The trimming step and the audio extraction that follows it in the main program:
  \<^verbatim>\<open>trimmed_video_path = trim_segments(input_vid_path)\<close>, then
  \<^verbatim>\<open>vid_to_aud(trimmed_video_path, "trimmed_audio.mp3")\<close>.
\<close>

definition main_trim_and_extract ::
  "('n \<Rightarrow> string) \<Rightarrow> string \<Rightarrow> 'n world \<Rightarrow> error + ('n world \<times> string)" where
  "main_trim_and_extract str input_vid_path w =
     (case trim_segments str input_vid_path ''output_trimmed.mp4'' w of
        Inl e \<Rightarrow> Inl e
      | Inr (w', trimmed_video_path) \<Rightarrow>
          vid_to_aud trimmed_video_path ''trimmed_audio.mp3'' w')"

text \<open>
  The filter graph as the specification describes it: for each index a video trim
  and an audio trim with the bounds of that entry of the plan, then one concatenation
  that names the label pairs in index order.
\<close>

datatype 'n graph_op =
    VideoTrim nat 'n 'n
  | AudioTrim nat 'n 'n
  | Concat "nat list"

definition spec_graph :: "('n \<times> 'n) list \<Rightarrow> 'n graph_op list" where
  "spec_graph keep =
     concat (map (\<lambda>i. [VideoTrim i (fst (keep ! i)) (snd (keep ! i)),
                        AudioTrim i (fst (keep ! i)) (snd (keep ! i))])
                 [0..<length keep])
     @ [Concat [0..<length keep]]"

text \<open>
  The text of a graph. The operation with index \<open>i\<close> writes to the pads named \<open>v\<close> and \<open>a\<close>
  followed by \<open>lab i\<close>; the concatenation reads the pads of its references in their order
  and states their number. \<open>lab\<close>, the text of an index, is a parameter.
\<close>

fun render_op :: "(nat \<Rightarrow> string) \<Rightarrow> ('n \<Rightarrow> string) \<Rightarrow> 'n graph_op \<Rightarrow> string" where
  "render_op lab str (VideoTrim i s e) =
     ''[0:v]trim=start='' @ str s @ '':end='' @ str e
       @ '',setpts=PTS-STARTPTS[v'' @ lab i @ '']; ''"
| "render_op lab str (AudioTrim i s e) =
     ''[0:a]atrim=start='' @ str s @ '':end='' @ str e
       @ '',asetpts=PTS-STARTPTS[a'' @ lab i @ '']; ''"
| "render_op lab str (Concat refs) =
     concat (map (\<lambda>i. ''[v'' @ lab i @ ''][a'' @ lab i @ '']'') refs)
     @ ''concat=n='' @ lab (length refs) @ '':v=1:a=1 [v][a]''"

definition render_graph :: "(nat \<Rightarrow> string) \<Rightarrow> ('n \<Rightarrow> string) \<Rightarrow> 'n graph_op list \<Rightarrow> string" where
  "render_graph lab str g = concat (map (render_op lab str) g)"

text \<open>The number that a string of decimal digits denotes, read from the left.\<close>

definition decimal_value :: "string \<Rightarrow> nat" where
  "decimal_value ds = foldl (\<lambda>a c. 10 * a + (of_char c - 48)) 0 ds"


section \<open>Properties of the silence parser\<close>

























section \<open>Properties of the merger\<close>

lemma merge_and_save_json_eq:
  "merge_and_save_json A B w =
     (if list_all (\<lambda>x. seg_start x \<noteq> None) (A @ B)
      then Inr (w\<lparr>output_json := Some (ListDoc (sort_key (\<lambda>x. the (seg_start x)) (A @ B))),
                   events := events w @ [Wrote ''output.json'', Printed MergedSaved]\<rparr>)
      else Inl (KeyError ''start''))"
  by (simp add: merge_and_save_json_def all_data_def)

lemma filter_append_split:
  "filter P xs = us @ vs \<Longrightarrow> \<exists>xs1 xs2. xs = xs1 @ xs2 \<and> filter P xs1 = us \<and> filter P xs2 = vs"
proof (induction us arbitrary: xs)
  case Nil
  then show ?case by (intro exI [of _ "[]"] exI [of _ xs]) simp
next
  case (Cons u us)
  from Cons.prems have "filter P xs = u # (us @ vs)" by simp
  then obtain ys zs where xs: "xs = ys @ u # zs" and ys: "\<forall>y\<in>set ys. \<not> P y"
    and u: "P u" and zs: "us @ vs = filter P zs"
    by (auto simp: filter_eq_Cons_iff)
  from Cons.IH [of zs] zs obtain z1 z2 where
    "zs = z1 @ z2" "filter P z1 = us" "filter P z2 = vs" by metis
  with xs ys u show ?case
    by (intro exI [of _ "ys @ u # z1"] exI [of _ z2]) simp
qed

lemma stable_precedes:
  assumes s: "s \<in> set A" and t: "t \<in> set B" and k: "f s = f t"
  shows "\<exists>pre mid post. sort_key f (A @ B) = pre @ s # mid @ t # post"
proof -
  let ?P = "\<lambda>y. f y = f s"
  have "filter ?P (sort_key f (A @ B)) = filter ?P A @ filter ?P B"
    by (simp add: sort_key_stable)
  then obtain xs1 xs2 where r: "sort_key f (A @ B) = xs1 @ xs2"
    and f1: "filter ?P xs1 = filter ?P A" and f2: "filter ?P xs2 = filter ?P B"
    using filter_append_split by blast
  from s f1 have "s \<in> set (filter ?P xs1)" by simp
  then have "s \<in> set xs1" by simp
  then obtain pre m1 where x1: "xs1 = pre @ s # m1" by (meson split_list)
  from t k f2 have "t \<in> set (filter ?P xs2)" by simp
  then have "t \<in> set xs2" by simp
  then obtain m2 post where x2: "xs2 = m2 @ t # post" by (meson split_list)
  from r x1 x2 have "sort_key f (A @ B) = pre @ s # (m1 @ m2) @ t # post" by simp
  then show ?thesis by blast
qed

text \<open>
  C3. When every interval of the speech list \<open>A\<close> and of the silence list \<open>B\<close> has a
  start, the merge succeeds and stores a timeline whose starts, read from the stored
  intervals themselves, are in ascending order; the timeline has length
  \<open>length A + length B\<close> and is a permutation of \<open>A @ B\<close>: the same intervals, each
  unchanged, with the same multiplicities.
\<close>

theorem merge_sorted_length_perm:
  assumes "list_all (\<lambda>x. seg_start x \<noteq> None) (A @ B)"
  shows "\<exists>w' r starts. merge_and_save_json A B w = Inr w'
           \<and> output_json w' = Some (ListDoc r)
           \<and> map seg_start r = map Some starts \<and> sorted starts
           \<and> length r = length A + length B
           \<and> mset r = mset (A @ B)"
proof -
  let ?k = "\<lambda>x::'a segment. the (seg_start x)"
  let ?r = "sort_key ?k (A @ B)"
  from assms have "\<forall>x\<in>set ?r. seg_start x \<noteq> None"
    by (simp add: list_all_iff)
  then have "map seg_start ?r = map Some (map ?k ?r)"
    by (simp add: map_idI)
  moreover have "sorted (map ?k ?r)"
    by (rule sorted_sort_key)
  moreover have "length ?r = length A + length B" "mset ?r = mset (A @ B)"
    by simp_all
  moreover from assms have "merge_and_save_json A B w
      = Inr (w\<lparr>output_json := Some (ListDoc ?r),
               events := events w @ [Wrote ''output.json'', Printed MergedSaved]\<rparr>)"
    by (simp add: merge_and_save_json_eq)
  ultimately show ?thesis
    by (intro exI [of _ "w\<lparr>output_json := Some (ListDoc ?r),
               events := events w @ [Wrote ''output.json'', Printed MergedSaved]\<rparr>"]
        exI [of _ ?r] exI [of _ "map ?k ?r"]) simp
qed

text \<open>
  At a concrete input: the speech intervals from 3 and from 0 and the silence interval
  from 2 are stored in the order 0, 2, 3.
\<close>

theorem merge_sorted_length_perm_witness:
  "list_all (\<lambda>x. seg_start x \<noteq> None) ([speech (3::int) 7 ''ad'', speech 0 2 ''intro''] @ [silence (2::int) 3])
   \<and> merge_and_save_json [speech (3::int) 7 ''ad'', speech 0 2 ''intro''] [silence (2::int) 3]
                 \<lparr>model_file = True, vectorizer_file = True, ffmpeg_installed = True,
                  output_json = None, events = []\<rparr>
     = Inr \<lparr>model_file = True, vectorizer_file = True, ffmpeg_installed = True,
            output_json = Some (ListDoc [speech 0 2 ''intro'', silence 2 3, speech 3 7 ''ad'']),
            events = [Wrote ''output.json'', Printed MergedSaved]\<rparr>
   \<and> map seg_start [speech (0::int) 2 ''intro'', silence 2 3, speech 3 7 ''ad'']
     = map Some [0, 2, 3]
   \<and> (\<exists>w' r starts. merge_and_save_json [speech (3::int) 7 ''ad'', speech 0 2 ''intro''] [silence (2::int) 3]
                 \<lparr>model_file = True, vectorizer_file = True, ffmpeg_installed = True,
                  output_json = None, events = []\<rparr>
               = Inr w'
           \<and> output_json w' = Some (ListDoc r)
           \<and> map seg_start r = map Some starts \<and> sorted starts
           \<and> length r = length [speech (3::int) 7 ''ad'', speech 0 2 ''intro''] + length [silence (2::int) 3]
           \<and> mset r = mset ([speech (3::int) 7 ''ad'', speech 0 2 ''intro''] @ [silence (2::int) 3]))"
  (is "_ \<and> _ \<and> _ \<and> ?C")
proof -
  have h: "list_all (\<lambda>x. seg_start x \<noteq> None) ([speech (3::int) 7 ''ad'', speech 0 2 ''intro''] @ [silence (2::int) 3])"
    by (simp add: speech_def silence_def)
  have v: "merge_and_save_json [speech (3::int) 7 ''ad'', speech 0 2 ''intro''] [silence (2::int) 3]
                 \<lparr>model_file = True, vectorizer_file = True, ffmpeg_installed = True,
                  output_json = None, events = []\<rparr>
     = Inr \<lparr>model_file = True, vectorizer_file = True, ffmpeg_installed = True,
            output_json = Some (ListDoc [speech 0 2 ''intro'', silence 2 3, speech 3 7 ''ad'']),
            events = [Wrote ''output.json'', Printed MergedSaved]\<rparr>"
    by (simp add: merge_and_save_json_eq speech_def silence_def)
  have k: "map seg_start [speech (0::int) 2 ''intro'', silence 2 3, speech 3 7 ''ad'']
     = map Some [0, 2, 3]"
    by (simp add: speech_def silence_def)
  from merge_sorted_length_perm [OF h] have c: ?C .
  from h v k c show ?thesis
    by (intro conjI)
qed

text \<open>
  C4. For a speech interval \<open>s\<close> (of the first list) and a silence interval \<open>t\<close> (of the
  second list) with the same start, \<open>s\<close> stands before \<open>t\<close> in the stored timeline.
\<close>

theorem merge_speech_before_silence:
  assumes "list_all (\<lambda>x. seg_start x \<noteq> None) (A @ B)"
    and "s \<in> set A" and "t \<in> set B" and "seg_start s = seg_start t"
  shows "\<exists>w' pre mid post. merge_and_save_json A B w = Inr w'
           \<and> output_json w' = Some (ListDoc (pre @ s # mid @ t # post))"
proof -
  from assms(4) have "the (seg_start s) = the (seg_start t)"
    by simp
  from stable_precedes [where f = "\<lambda>x. the (seg_start x)", OF assms(2) assms(3) this]
  obtain pre mid post
    where "sort_key (\<lambda>x. the (seg_start x)) (A @ B) = pre @ s # mid @ t # post" by blast
  with assms(1) have "merge_and_save_json A B w
        = Inr (w\<lparr>output_json := Some (ListDoc (pre @ s # mid @ t # post)),
                 events := events w @ [Wrote ''output.json'', Printed MergedSaved]\<rparr>)"
    by (simp add: merge_and_save_json_eq)
  then show ?thesis
    by (intro exI [of _ "w\<lparr>output_json := Some (ListDoc (pre @ s # mid @ t # post)),
          events := events w @ [Wrote ''output.json'', Printed MergedSaved]\<rparr>"]
        exI [of _ pre] exI [of _ mid] exI [of _ post]) simp
qed

theorem merge_speech_before_silence_witness:
  "list_all (\<lambda>x. seg_start x \<noteq> None) ([speech (2::int) 5 ''talk''] @ [silence 0 1, silence 2 3])
   \<and> speech 2 5 ''talk'' \<in> set [speech (2::int) 5 ''talk'']
   \<and> silence 2 3 \<in> set [silence (0::int) 1, silence 2 3]
   \<and> seg_start (speech (2::int) 5 ''talk'') = seg_start (silence 2 3)
   \<and> (\<exists>w' pre mid post.
         merge_and_save_json [speech (2::int) 5 ''talk''] [silence 0 1, silence 2 3]
           \<lparr>model_file = True, vectorizer_file = True, ffmpeg_installed = True, output_json = None, events = []\<rparr>
         = Inr w'
       \<and> output_json w' = Some (ListDoc (pre @ speech 2 5 ''talk'' # mid @ silence 2 3 # post)))"
proof -
  have h1: "list_all (\<lambda>x. seg_start x \<noteq> None)
              ([speech (2::int) 5 ''talk''] @ [silence 0 1, silence 2 3])"
    by (simp add: speech_def silence_def)
  have h2: "speech 2 5 ''talk'' \<in> set [speech (2::int) 5 ''talk'']" by simp
  have h3: "silence 2 3 \<in> set [silence (0::int) 1, silence 2 3]" by simp
  have h4: "seg_start (speech (2::int) 5 ''talk'') = seg_start (silence 2 3)"
    by (simp add: speech_def silence_def)
  from merge_speech_before_silence [OF h1 h2 h3 h4] h1 h2 h3 h4 show ?thesis by blast
qed

text \<open>
  C5, as the code has it. The merger does not compare start with end. An interval whose
  end is not after its start raises nothing: when every input interval has a start the
  merge succeeds, and that interval is in the stored timeline.
\<close>

theorem merge_keeps_inverted_interval:
  assumes "list_all (\<lambda>x. seg_start x \<noteq> None) (A @ B)"
    and "x \<in> set (A @ B)"
    and "seg_start x = Some a" and "seg_end x = Some b" and "b \<le> a"
  shows "\<exists>w' r. merge_and_save_json A B w = Inr w'
           \<and> output_json w' = Some (ListDoc r) \<and> x \<in> set r"
  using assms(1,2) by (simp add: merge_and_save_json_eq)

theorem merge_keeps_inverted_interval_witness:
  "list_all (\<lambda>x. seg_start x \<noteq> None) ([speech (0::int) 2 ''intro''] @ [silence 9 4])
   \<and> silence 9 4 \<in> set ([speech (0::int) 2 ''intro''] @ [silence 9 4])
   \<and> seg_start (silence (9::int) 4) = Some 9 \<and> seg_end (silence (9::int) 4) = Some 4
   \<and> (4::int) \<le> 9
   \<and> (\<exists>w' r. merge_and_save_json [speech (0::int) 2 ''intro''] [silence 9 4]
                 \<lparr>model_file = True, vectorizer_file = True, ffmpeg_installed = True, output_json = None, events = []\<rparr>
               = Inr w'
           \<and> output_json w' = Some (ListDoc r) \<and> silence 9 4 \<in> set r)"
proof -
  have h1: "list_all (\<lambda>x. seg_start x \<noteq> None) ([speech (0::int) 2 ''intro''] @ [silence 9 4])"
    by (simp add: speech_def silence_def)
  have h2: "silence 9 4 \<in> set ([speech (0::int) 2 ''intro''] @ [silence 9 4])" by simp
  have h3: "seg_start (silence (9::int) 4) = Some 9" by (simp add: silence_def)
  have h4: "seg_end (silence (9::int) 4) = Some 4" by (simp add: silence_def)
  have h5: "(4::int) \<le> 9" by simp
  from merge_keeps_inverted_interval [OF h1 h2 h3 h4 h5] h1 h2 h3 h4 h5 show ?thesis by blast
qed

text \<open>
  The claim C5 as stated fails: the merge of a single interval from 5 to 1 returns
  normally and stores that interval.
\<close>

theorem merge_raises_on_inverted_counterexample:
  "merge_and_save_json [] [silence (5::int) 1]
     \<lparr>model_file = True, vectorizer_file = True, ffmpeg_installed = True, output_json = None, events = []\<rparr>
   = Inr \<lparr>model_file = True, vectorizer_file = True, ffmpeg_installed = True,
          output_json = Some (ListDoc [silence 5 1]),
          events = [Wrote ''output.json'', Printed MergedSaved]\<rparr>"
  by (simp add: merge_and_save_json_eq silence_def)

section \<open>Properties of the cut planner\<close>

lemma keep_segments_eq:
  assumes "list_all (\<lambda>e. seg_classification e = Some ''Relevant''
             \<longrightarrow> seg_start e \<noteq> None \<and> seg_end e \<noteq> None) data"
  shows "keep_segments data
         = Inr (map (\<lambda>e. (the (seg_start e), the (seg_end e)))
                    (filter (\<lambda>e. seg_classification e = Some ''Relevant'') data))"
  using assms by (induction data) auto

text \<open>
  C6. With an empty KeepPlan, \<^verbatim>\<open>trim_segments\<close> starts no process, prints its notice and
  returns \<^verbatim>\<open>None\<close>. The main program does not test the result: it passes \<^verbatim>\<open>None\<close> to
  \<^verbatim>\<open>vid_to_aud\<close>, and the run ends with \<^verbatim>\<open>TypeError\<close> instead of a clean exit.
\<close>

theorem empty_plan_then_type_error:
  assumes "output_json w = Some data" and "keep_segments_of data = Inr []"
  shows "trim_segments str input_vid_path ''output_trimmed.mp4'' w
           = Inr (w\<lparr>events := events w @ [Printed NoRelevantSegments]\<rparr>, None)
       \<and> main_trim_and_extract str input_vid_path w = Inl TypeError"
  using assms by (simp add: trim_segments_def main_trim_and_extract_def vid_to_aud_def)

theorem empty_plan_then_type_error_witness:
  "output_json \<lparr>model_file = True, vectorizer_file = True, ffmpeg_installed = True,
       output_json = Some (ListDoc [(speech (3::int) 7 ''ad'')\<lparr>seg_classification := Some ''Irrelevant''\<rparr>]),
       events = []\<rparr>
     = Some (ListDoc [(speech (3::int) 7 ''ad'')\<lparr>seg_classification := Some ''Irrelevant''\<rparr>])
   \<and> keep_segments_of (ListDoc [(speech (3::int) 7 ''ad'')\<lparr>seg_classification := Some ''Irrelevant''\<rparr>])
     = Inr []
   \<and> trim_segments (\<lambda>n. show_nat (nat n)) ''input.mp4'' ''output_trimmed.mp4''
       \<lparr>model_file = True, vectorizer_file = True, ffmpeg_installed = True,
        output_json = Some (ListDoc [(speech (3::int) 7 ''ad'')\<lparr>seg_classification := Some ''Irrelevant''\<rparr>]),
        events = []\<rparr>
     = Inr (\<lparr>model_file = True, vectorizer_file = True, ffmpeg_installed = True,
        output_json = Some (ListDoc [(speech (3::int) 7 ''ad'')\<lparr>seg_classification := Some ''Irrelevant''\<rparr>]),
        events = [Printed NoRelevantSegments]\<rparr>, None)
   \<and> main_trim_and_extract (\<lambda>n. show_nat (nat n)) ''input.mp4''
       \<lparr>model_file = True, vectorizer_file = True, ffmpeg_installed = True,
        output_json = Some (ListDoc [(speech (3::int) 7 ''ad'')\<lparr>seg_classification := Some ''Irrelevant''\<rparr>]),
        events = []\<rparr>
     = Inl TypeError"
  using empty_plan_then_type_error [of
       "\<lparr>model_file = True, vectorizer_file = True, ffmpeg_installed = True,
        output_json = Some (ListDoc [(speech (3::int) 7 ''ad'')\<lparr>seg_classification := Some ''Irrelevant''\<rparr>]),
        events = []\<rparr>"
       "ListDoc [(speech (3::int) 7 ''ad'')\<lparr>seg_classification := Some ''Irrelevant''\<rparr>]"
       "\<lambda>n. show_nat (nat n)" "''input.mp4''"]
  by (simp add: keep_segments_of_def speech_def)

section \<open>Properties of the classification gate\<close>

text \<open>
  C10. When the loaded timeline has no speech entry, \<^verbatim>\<open>classify\<close> returns normally,
  the stored timeline is the one that was there, and the only events are two printed
  lines, the second being the warning: nothing is written.
\<close>

theorem classify_without_speech_writes_nothing:
  assumes "model_file w" and "vectorizer_file w"
    and "output_json w = Some data" and "segments_of data = Inr segs"
    and "list_all (\<lambda>seg. seg_type seg \<noteq> None \<and> seg_type seg \<noteq> Some ''speech'') segs"
  shows "\<exists>w'. classify predict w = Inr w'
           \<and> output_json w' = output_json w
           \<and> events w' = events w @ [Printed LoadingModel, Printed NoSpeechSegments]"
proof -
  from assms(5) have t: "list_all (\<lambda>seg. seg_type seg \<noteq> None) segs"
    by (simp add: list_all_iff)
  from assms(5) have "filter (\<lambda>i. seg_type (segs ! i) = Some ''speech'') [0..<length segs] = []"
    by (auto simp: list_all_iff filter_empty_conv)
  with t have "speech_segments segs = Inr []"
    by (simp add: speech_segments_def)
  with assms(1-4) show ?thesis
    by (simp add: classify_def texts_of_def)
qed

theorem classify_without_speech_writes_nothing_witness:
  "model_file \<lparr>model_file = True, vectorizer_file = True, ffmpeg_installed = True,
       output_json = Some (ListDoc [silence (0::int) 4]), events = []\<rparr>
   \<and> vectorizer_file \<lparr>model_file = True, vectorizer_file = True, ffmpeg_installed = True,
       output_json = Some (ListDoc [silence (0::int) 4]), events = []\<rparr>
   \<and> output_json \<lparr>model_file = True, vectorizer_file = True, ffmpeg_installed = True,
       output_json = Some (ListDoc [silence (0::int) 4]), events = []\<rparr>
     = Some (ListDoc [silence (0::int) 4])
   \<and> segments_of (ListDoc [silence (0::int) 4]) = Inr [silence 0 4]
   \<and> list_all (\<lambda>seg. seg_type seg \<noteq> None \<and> seg_type seg \<noteq> Some ''speech'') [silence (0::int) 4]
   \<and> (\<exists>w'. classify (\<lambda>texts. map (\<lambda>t. 1) texts)
              \<lparr>model_file = True, vectorizer_file = True, ffmpeg_installed = True,
               output_json = Some (ListDoc [silence (0::int) 4]), events = []\<rparr> = Inr w'
           \<and> output_json w' = Some (ListDoc [silence (0::int) 4])
           \<and> events w' = [Printed LoadingModel, Printed NoSpeechSegments])"
  using classify_without_speech_writes_nothing [of
      "\<lparr>model_file = True, vectorizer_file = True, ffmpeg_installed = True,
        output_json = Some (ListDoc [silence (0::int) 4]), events = []\<rparr>"
      "ListDoc [silence (0::int) 4]" "[silence (0::int) 4]" "\<lambda>texts. map (\<lambda>t. 1) texts"]
  by (simp add: segments_of_def silence_def)

lemma label_fold_length:
  "length (fold (\<lambda>(i, label) d. d[i := set_label label (d ! i)]) ps d) = length d"
  by (induction ps arbitrary: d) auto

lemma label_fold_only_classification:
  "\<exists>c. fold (\<lambda>(i, label) d. d[i := set_label label (d ! i)]) ps d ! j
        = (d ! j)\<lparr>seg_classification := c\<rparr>"
proof (induction ps arbitrary: d)
  case Nil
  show ?case by (intro exI [of _ "seg_classification (d ! j)"]) simp
next
  case (Cons p ps)
  obtain i l where p: "p = (i, l)" by (cases p)
  from Cons.IH [of "d[i := set_label l (d ! i)]"] obtain c where
    c: "fold (\<lambda>(i, label) d. d[i := set_label label (d ! i)]) ps (d[i := set_label l (d ! i)]) ! j
        = (d[i := set_label l (d ! i)] ! j)\<lparr>seg_classification := c\<rparr>" by blast
  have "\<exists>c'. (d[i := set_label l (d ! i)] ! j)\<lparr>seg_classification := c\<rparr>
            = (d ! j)\<lparr>seg_classification := c'\<rparr>"
  proof (cases "i = j \<and> i < length d")
    case True
    then have "(d[i := set_label l (d ! i)] ! j)\<lparr>seg_classification := c\<rparr>
               = (d ! j)\<lparr>seg_classification := c\<rparr>"
      by (simp add: set_label_def)
    then show ?thesis by blast
  next
    case False
    then have "d[i := set_label l (d ! i)] ! j = d ! j"
      by (cases "i < length d") (auto simp: list_update_beyond not_less)
    then show ?thesis by auto
  qed
  with c p show ?case by auto
qed

lemma label_fold_untouched:
  "j \<notin> fst ` set ps \<Longrightarrow>
   fold (\<lambda>(i, label) d. d[i := set_label label (d ! i)]) ps d ! j = d ! j"
  by (induction ps arbitrary: d) auto

lemma label_fold_touched:
  "distinct (map fst ps) \<Longrightarrow> (i, l) \<in> set ps \<Longrightarrow> i < length d \<Longrightarrow>
   fold (\<lambda>(i, label) d. d[i := set_label label (d ! i)]) ps d ! i = set_label l (d ! i)"
proof (induction ps arbitrary: d)
  case Nil
  then show ?case by simp
next
  case (Cons p ps)
  obtain i' l' where p: "p = (i', l')" by (cases p)
  show ?case
  proof (cases "(i, l) = p")
    case True
    then have "fst p = i" by auto
    moreover from Cons.prems(1) have "fst p \<notin> set (map fst ps)" by simp
    ultimately have "i \<notin> fst ` set ps" by simp
    with True [symmetric] Cons.prems(3) show ?thesis
      by (simp add: label_fold_untouched)
  next
    case False
    with Cons.prems(2) have in_ps: "(i, l) \<in> set ps" by simp
    then have "i \<in> fst ` set ps" by (metis fst_conv image_eqI)
    with Cons.prems(1) p have ne: "i' \<noteq> i" by auto
    from Cons.prems(1) have d: "distinct (map fst ps)" by simp
    from Cons.IH [OF d in_ps, of "d[i' := set_label l' (d ! i')]"] Cons.prems(3) ne p
    show ?thesis by simp
  qed
qed

lemma segments_of_with_segments:
  "segments_of data = Inr segs \<Longrightarrow> segments_of (with_segments data segs') = Inr segs'"
  by (cases data) (auto simp: segments_of_def with_segments_def update_conv' split: option.splits)

lemma with_segments_same:
  "segments_of data = Inr segs \<Longrightarrow> with_segments data segs = data"
  by (cases data) (auto simp: segments_of_def with_segments_def update_triv split: option.splits)

lemma speech_segments_props:
  assumes "speech_segments segs = Inr idx"
  shows "distinct idx" and "\<forall>i\<in>set idx. i < length segs \<and> seg_type (segs ! i) = Some ''speech''"
    and "\<And>i. i < length segs \<Longrightarrow> seg_type (segs ! i) = Some ''speech'' \<Longrightarrow> i \<in> set idx"
  using assms by (auto simp: speech_segments_def split: if_splits)

lemma label_segments_non_speech:
  assumes "speech_segments segs = Inr idx" and "seg_type (segs ! j) \<noteq> Some ''speech''"
  shows "label_segments segs idx predictions ! j = segs ! j"
proof -
  from speech_segments_props(2) [OF assms(1)] assms(2) have "j \<notin> set idx" by auto
  then have "j \<notin> fst ` set (zip idx predictions)"
    by (auto dest: set_zip_leftD)
  then show ?thesis
    unfolding label_segments_def by (rule label_fold_untouched)
qed

lemma classify_Inr_cases:
  assumes "classify predict w = Inr w'" and "output_json w = Some data"
    and "segments_of data = Inr segs"
  obtains idx texts where "speech_segments segs = Inr idx" "texts_of segs idx = Inr texts"
    "output_json w' = Some (with_segments data (label_segments segs idx (predict texts)))
     \<or> output_json w' = Some data"
  using assms
  by (auto simp: classify_def split: if_splits sum.splits)

text \<open>
  C7. When \<^verbatim>\<open>classify\<close> returns, the stored timeline has as many entries as the loaded
  one; an entry whose type is not speech is the entry that was loaded, and every entry
  differs from the loaded one at most in its classification: start, end, type, text and
  any further field are the same.
\<close>

theorem classify_only_adds_classification:
  assumes "classify predict w = Inr w'" and "output_json w = Some data"
    and "segments_of data = Inr segs"
  shows "\<exists>data' segs'. output_json w' = Some data' \<and> segments_of data' = Inr segs'
           \<and> length segs' = length segs
           \<and> (\<forall>i<length segs.
                 (seg_type (segs ! i) \<noteq> Some ''speech'' \<longrightarrow> segs' ! i = segs ! i)
               \<and> (\<exists>c. segs' ! i = (segs ! i)\<lparr>seg_classification := c\<rparr>))"
proof -
  from assms obtain idx texts where idx: "speech_segments segs = Inr idx"
    and out: "output_json w' = Some (with_segments data (label_segments segs idx (predict texts)))
              \<or> output_json w' = Some data"
    by (rule classify_Inr_cases)
  from out show ?thesis
  proof
    assume o: "output_json w' = Some (with_segments data (label_segments segs idx (predict texts)))"
    let ?L = "label_segments segs idx (predict texts)"
    have 1: "segments_of (with_segments data ?L) = Inr ?L"
      using assms(3) by (rule segments_of_with_segments)
    have 2: "length ?L = length segs"
      by (simp add: label_segments_def label_fold_length)
    have 3: "?L ! i = segs ! i" if "seg_type (segs ! i) \<noteq> Some ''speech''" for i
      using idx that by (rule label_segments_non_speech)
    have 4: "\<exists>c. ?L ! i = (segs ! i)\<lparr>seg_classification := c\<rparr>" for i
      unfolding label_segments_def by (rule label_fold_only_classification)
    from o 1 2 3 4 show ?thesis by blast
  next
    assume o: "output_json w' = Some data"
    have "\<exists>c. segs ! i = (segs ! i)\<lparr>seg_classification := c\<rparr>" for i
      by (intro exI [of _ "seg_classification (segs ! i)"]) simp
    with o assms(3) show ?thesis by blast
  qed
qed

theorem classify_only_adds_classification_witness:
  "classify (\<lambda>texts. map (\<lambda>t. 1) texts)
     \<lparr>model_file = True, vectorizer_file = True, ffmpeg_installed = True,
      output_json = Some (ListDoc [speech (0::int) 2 ''intro'', silence 2 3]), events = []\<rparr>
   = Inr \<lparr>model_file = True, vectorizer_file = True, ffmpeg_installed = True,
      output_json = Some (ListDoc [(speech (0::int) 2 ''intro'')\<lparr>seg_classification := Some ''Relevant''\<rparr>,
                                   silence 2 3]),
      events = [Printed LoadingModel, Printed Transforming, Printed Updating,
                Wrote ''output.json'', Printed ClassificationCompleted]\<rparr>
   \<and> output_json \<lparr>model_file = True, vectorizer_file = True, ffmpeg_installed = True,
      output_json = Some (ListDoc [speech (0::int) 2 ''intro'', silence 2 3]), events = []\<rparr>
     = Some (ListDoc [speech (0::int) 2 ''intro'', silence 2 3])
   \<and> segments_of (ListDoc [speech (0::int) 2 ''intro'', silence 2 3])
     = Inr [speech (0::int) 2 ''intro'', silence 2 3]
   \<and> (\<exists>data' segs'.
         output_json \<lparr>model_file = True, vectorizer_file = True, ffmpeg_installed = True,
           output_json = Some (ListDoc [(speech (0::int) 2 ''intro'')\<lparr>seg_classification := Some ''Relevant''\<rparr>,
                                        silence 2 3]),
           events = [Printed LoadingModel, Printed Transforming, Printed Updating,
                     Wrote ''output.json'', Printed ClassificationCompleted]\<rparr> = Some data'
       \<and> segments_of data' = Inr segs'
       \<and> length segs' = length [speech (0::int) 2 ''intro'', silence 2 3]
       \<and> (\<forall>i<length [speech (0::int) 2 ''intro'', silence 2 3].
             (seg_type ([speech (0::int) 2 ''intro'', silence 2 3] ! i) \<noteq> Some ''speech''
                \<longrightarrow> segs' ! i = [speech (0::int) 2 ''intro'', silence 2 3] ! i)
           \<and> (\<exists>c. segs' ! i
                  = ([speech (0::int) 2 ''intro'', silence 2 3] ! i)\<lparr>seg_classification := c\<rparr>)))"
proof -
  have h1: "classify (\<lambda>texts. map (\<lambda>t. 1) texts)
     \<lparr>model_file = True, vectorizer_file = True, ffmpeg_installed = True,
      output_json = Some (ListDoc [speech (0::int) 2 ''intro'', silence 2 3]), events = []\<rparr>
   = Inr \<lparr>model_file = True, vectorizer_file = True, ffmpeg_installed = True,
      output_json = Some (ListDoc [(speech (0::int) 2 ''intro'')\<lparr>seg_classification := Some ''Relevant''\<rparr>,
                                   silence 2 3]),
      events = [Printed LoadingModel, Printed Transforming, Printed Updating,
                Wrote ''output.json'', Printed ClassificationCompleted]\<rparr>"
    by (simp add: classify_def segments_of_def speech_segments_def texts_of_def
        label_segments_def set_label_def with_segments_def speech_def silence_def)
  have h2: "output_json \<lparr>model_file = True, vectorizer_file = True, ffmpeg_installed = True,
      output_json = Some (ListDoc [speech (0::int) 2 ''intro'', silence 2 3]), events = []\<rparr>
     = Some (ListDoc [speech (0::int) 2 ''intro'', silence 2 3])"
    by simp
  have h3: "segments_of (ListDoc [speech (0::int) 2 ''intro'', silence 2 3])
     = Inr [speech (0::int) 2 ''intro'', silence 2 3]"
    by (simp add: segments_of_def)
  from classify_only_adds_classification [OF h1 h2 h3] h1 h2 h3 show ?thesis by blast
qed

lemma distinct_nth_notin_take:
  assumes "distinct xs" and "k < length xs" and "n \<le> k"
  shows "xs ! k \<notin> set (take n xs)"
proof
  assume "xs ! k \<in> set (take n xs)"
  then obtain m where m: "m < length (take n xs)" and e: "take n xs ! m = xs ! k"
    by (auto simp: in_set_conv_nth)
  from m have mn: "m < n" and ml: "m < length xs" by simp_all
  with e have "xs ! m = xs ! k" by simp
  with assms(1,2) ml have "m = k" by (simp add: nth_eq_iff_index_eq)
  with mn assms(3) show False by simp
qed

lemma label_segments_nth:
  assumes idx: "speech_segments segs = Inr idx" and k: "k < length idx"
  shows "label_segments segs idx predictions ! (idx ! k)
         = (if k < length predictions then set_label (predictions ! k) (segs ! (idx ! k))
            else segs ! (idx ! k))"
proof (cases "k < length predictions")
  case True
  have d: "distinct (map fst (zip idx predictions))"
    using speech_segments_props(1) [OF idx] by (simp add: map_fst_zip_take)
  from True k have m: "(idx ! k, predictions ! k) \<in> set (zip idx predictions)"
    by (auto simp: in_set_zip)
  from speech_segments_props(2) [OF idx] k have l: "idx ! k < length segs" by simp
  from label_fold_touched [OF d m l] True show ?thesis
    by (simp add: label_segments_def)
next
  case False
  then have "min (length idx) (length predictions) \<le> k" by simp
  from distinct_nth_notin_take [OF speech_segments_props(1) [OF idx] k this]
  have "idx ! k \<notin> set (map fst (zip idx predictions))"
    by (simp add: map_fst_zip_take)
  then have "idx ! k \<notin> fst ` set (zip idx predictions)" by simp
  from label_fold_untouched [OF this] False show ?thesis
    by (simp add: label_segments_def)
qed

text \<open>
  C8, as the code has it. Nothing compares the number of labels with the number of
  texts. Whatever labels the classifier returns for a non-empty batch, \<^verbatim>\<open>classify\<close>
  returns normally and writes the file: the \<open>k\<close>-th speech entry gets the \<open>k\<close>-th label
  when there is one and stays as it was loaded otherwise; labels beyond the last speech
  entry are ignored.
\<close>

theorem classify_labels_prefix_on_mismatch:
  assumes "model_file w" and "vectorizer_file w"
    and "output_json w = Some data" and "segments_of data = Inr segs"
    and "speech_segments segs = Inr idx" and "texts_of segs idx = Inr texts"
    and "texts \<noteq> []"
  shows "\<exists>w' segs'. classify predict w = Inr w'
           \<and> output_json w' = Some (with_segments data segs')
           \<and> Wrote ''output.json'' \<in> set (events w')
           \<and> length segs' = length segs
           \<and> (\<forall>k<length idx.
                 segs' ! (idx ! k)
                 = (if k < length (predict texts)
                    then set_label (predict texts ! k) (segs ! (idx ! k))
                    else segs ! (idx ! k)))"
proof -
  let ?L = "label_segments segs idx (predict texts)"
  let ?w = "w\<lparr>output_json := Some (with_segments data ?L),
               events := events w @ [Printed LoadingModel, Printed Transforming,
                 Printed Updating, Wrote ''output.json'', Printed ClassificationCompleted]\<rparr>"
  from assms have 1: "classify predict w = Inr ?w"
    by (simp add: classify_def)
  have 2: "output_json ?w = Some (with_segments data ?L)" by simp
  have 3: "Wrote ''output.json'' \<in> set (events ?w)" by simp
  have 4: "length ?L = length segs"
    by (simp add: label_segments_def label_fold_length)
  have 5: "\<forall>k<length idx. ?L ! (idx ! k)
                 = (if k < length (predict texts)
                    then set_label (predict texts ! k) (segs ! (idx ! k))
                    else segs ! (idx ! k))"
    using label_segments_nth [OF assms(5)] by blast
  from 1 2 3 4 5 show ?thesis by blast
qed

theorem classify_labels_prefix_on_mismatch_witness:
  "model_file \<lparr>model_file = True, vectorizer_file = True, ffmpeg_installed = True,
      output_json = Some (ListDoc [speech (0::int) 2 ''intro'', speech 3 7 ''ad'']), events = []\<rparr>
   \<and> vectorizer_file \<lparr>model_file = True, vectorizer_file = True, ffmpeg_installed = True,
      output_json = Some (ListDoc [speech (0::int) 2 ''intro'', speech 3 7 ''ad'']), events = []\<rparr>
   \<and> output_json \<lparr>model_file = True, vectorizer_file = True, ffmpeg_installed = True,
      output_json = Some (ListDoc [speech (0::int) 2 ''intro'', speech 3 7 ''ad'']), events = []\<rparr> = Some (ListDoc [speech (0::int) 2 ''intro'', speech 3 7 ''ad''])
   \<and> segments_of (ListDoc [speech (0::int) 2 ''intro'', speech 3 7 ''ad'']) = Inr [speech (0::int) 2 ''intro'', speech 3 7 ''ad'']
   \<and> speech_segments [speech (0::int) 2 ''intro'', speech 3 7 ''ad''] = Inr [0, Suc 0]
   \<and> texts_of [speech (0::int) 2 ''intro'', speech 3 7 ''ad''] [0, Suc 0] = Inr [''intro'', ''ad'']
   \<and> [''intro'', ''ad''] \<noteq> []
   \<and> (\<exists>w' segs'. classify (\<lambda>texts. [1::int]) \<lparr>model_file = True, vectorizer_file = True, ffmpeg_installed = True,
      output_json = Some (ListDoc [speech (0::int) 2 ''intro'', speech 3 7 ''ad'']), events = []\<rparr> = Inr w'
           \<and> output_json w' = Some (with_segments (ListDoc [speech (0::int) 2 ''intro'', speech 3 7 ''ad'']) segs')
           \<and> Wrote ''output.json'' \<in> set (events w')
           \<and> length segs' = length [speech (0::int) 2 ''intro'', speech 3 7 ''ad'']
           \<and> (\<forall>k<length [0, Suc 0].
                 segs' ! ([0, Suc 0] ! k)
                 = (if k < length ((\<lambda>texts. [1::int]) [''intro'', ''ad''])
                    then set_label ((\<lambda>texts. [1::int]) [''intro'', ''ad''] ! k) ([speech (0::int) 2 ''intro'', speech 3 7 ''ad''] ! ([0, Suc 0] ! k))
                    else [speech (0::int) 2 ''intro'', speech 3 7 ''ad''] ! ([0, Suc 0] ! k))))"
  (is "_ \<and> _ \<and> _ \<and> _ \<and> _ \<and> _ \<and> _ \<and> ?C")
proof -
  have h1: "model_file \<lparr>model_file = True, vectorizer_file = True, ffmpeg_installed = True,
      output_json = Some (ListDoc [speech (0::int) 2 ''intro'', speech 3 7 ''ad'']), events = []\<rparr>"
    by simp
  have h2: "vectorizer_file \<lparr>model_file = True, vectorizer_file = True, ffmpeg_installed = True,
      output_json = Some (ListDoc [speech (0::int) 2 ''intro'', speech 3 7 ''ad'']), events = []\<rparr>"
    by simp
  have h3: "output_json \<lparr>model_file = True, vectorizer_file = True, ffmpeg_installed = True,
      output_json = Some (ListDoc [speech (0::int) 2 ''intro'', speech 3 7 ''ad'']), events = []\<rparr> = Some (ListDoc [speech (0::int) 2 ''intro'', speech 3 7 ''ad''])"
    by simp
  have h4: "segments_of (ListDoc [speech (0::int) 2 ''intro'', speech 3 7 ''ad'']) = Inr [speech (0::int) 2 ''intro'', speech 3 7 ''ad'']"
    by (simp add: segments_of_def)
  have h5: "speech_segments [speech (0::int) 2 ''intro'', speech 3 7 ''ad''] = Inr [0, Suc 0]"
    by (simp add: speech_segments_def speech_def)
  have h6: "texts_of [speech (0::int) 2 ''intro'', speech 3 7 ''ad''] [0, Suc 0] = Inr [''intro'', ''ad'']"
    by (simp add: texts_of_def speech_def)
  have h7: "[''intro'', ''ad''] \<noteq> []"
    by simp
  from classify_labels_prefix_on_mismatch [OF h1 h2 h3 h4 h5 h6 h7, of "(\<lambda>texts. [1::int])"]
  have c: ?C .
  from h1 h2 h3 h4 h5 h6 h7 c show ?thesis
    by (intro conjI)
qed

text \<open>
  The claim C8 as stated fails: with two texts and one label, \<^verbatim>\<open>classify\<close> raises nothing,
  labels the first speech entry only and writes the file.
\<close>

theorem classify_detects_mismatch_counterexample:
  "length ((\<lambda>texts. [1::int]) [''intro'', ''ad'']) \<noteq> length [''intro'', ''ad'']
   \<and> texts_of [speech (0::int) 2 ''intro'', speech 3 7 ''ad''] [0, Suc 0] = Inr [''intro'', ''ad'']
   \<and> classify (\<lambda>texts. [1::int]) \<lparr>model_file = True, vectorizer_file = True, ffmpeg_installed = True,
      output_json = Some (ListDoc [speech (0::int) 2 ''intro'', speech 3 7 ''ad'']), events = []\<rparr>
     = Inr \<lparr>model_file = True, vectorizer_file = True, ffmpeg_installed = True,
          output_json = Some (ListDoc [(speech (0::int) 2 ''intro'')\<lparr>seg_classification := Some ''Relevant''\<rparr>,
                                       speech 3 7 ''ad'']),
          events = [Printed LoadingModel, Printed Transforming, Printed Updating,
                    Wrote ''output.json'', Printed ClassificationCompleted]\<rparr>"
  by (simp add: classify_def segments_of_def speech_segments_def texts_of_def
      label_segments_def set_label_def with_segments_def speech_def)

section \<open>The cut planner on the timelines of the program\<close>

lemma classify_list_result:
  assumes "classify predict w = Inr w'" and "output_json w = Some (ListDoc segs)"
  shows "\<exists>labelled. output_json w' = Some (ListDoc labelled) \<and> length labelled = length segs
    \<and> (\<forall>i. seg_type (segs ! i) \<noteq> Some ''speech'' \<longrightarrow> labelled ! i = segs ! i)
    \<and> (\<forall>i. \<exists>c. labelled ! i = (segs ! i)\<lparr>seg_classification := c\<rparr>)"
proof -
  have s: "segments_of (ListDoc segs) = Inr segs"
    by (simp add: segments_of_def)
  from assms(1) assms(2) s obtain idx texts where idx: "speech_segments segs = Inr idx"
    and out: "output_json w' = Some (with_segments (ListDoc segs)
                                       (label_segments segs idx (predict texts)))
              \<or> output_json w' = Some (ListDoc segs)"
    by (rule classify_Inr_cases)
  from out show ?thesis
  proof
    let ?L = "label_segments segs idx (predict texts)"
    assume "output_json w' = Some (with_segments (ListDoc segs) ?L)"
    then have 1: "output_json w' = Some (ListDoc ?L)"
      by (simp add: with_segments_def)
    have 2: "length ?L = length segs"
      by (simp add: label_segments_def label_fold_length)
    have 3: "?L ! i = segs ! i" if "seg_type (segs ! i) \<noteq> Some ''speech''" for i
      using idx that by (rule label_segments_non_speech)
    have 4: "\<exists>c. ?L ! i = (segs ! i)\<lparr>seg_classification := c\<rparr>" for i
      unfolding label_segments_def by (rule label_fold_only_classification)
    from 1 2 3 4 show ?thesis by blast
  next
    assume 1: "output_json w' = Some (ListDoc segs)"
    have 4: "\<exists>c. segs ! i = (segs ! i)\<lparr>seg_classification := c\<rparr>" for i
      by (intro exI [of _ "seg_classification (segs ! i)"]) simp
    from 1 4 show ?thesis by blast
  qed
qed

lemma built_segments:
  assumes "e \<in> set (process_video transcription @ parse_silence_data float ffmpeg_output)"
  shows "seg_start e \<noteq> None" and "seg_end e \<noteq> None" and "seg_classification e = None"
  using assms
  by (auto simp: process_video_def parse_silence_data_def speech_def silence_def)

lemma keep_plan_of_typed_labels:
  assumes "\<forall>e\<in>set labelled. seg_start e \<noteq> None \<and> seg_end e \<noteq> None
             \<and> (seg_classification e = Some ''Relevant'' \<longrightarrow> seg_type e = Some ''speech'')"
  shows "\<exists>plan. keep_segments labelled = Inr plan
           \<and> map (\<lambda>(start, end'). (Some start, Some end')) plan
             = map (\<lambda>e. (seg_start e, seg_end e))
                 (filter (\<lambda>e. seg_type e = Some ''speech''
                            \<and> seg_classification e = Some ''Relevant'') labelled)"
  using assms
proof (induction labelled)
  case Nil
  show ?case by simp
next
  case (Cons e labelled)
  from Cons.prems have "\<forall>e\<in>set labelled. seg_start e \<noteq> None \<and> seg_end e \<noteq> None
             \<and> (seg_classification e = Some ''Relevant'' \<longrightarrow> seg_type e = Some ''speech'')"
    by simp
  from Cons.IH [OF this] obtain plan where p: "keep_segments labelled = Inr plan"
    and m: "map (\<lambda>(start, end'). (Some start, Some end')) plan
             = map (\<lambda>e. (seg_start e, seg_end e))
                 (filter (\<lambda>e. seg_type e = Some ''speech''
                            \<and> seg_classification e = Some ''Relevant'') labelled)"
    by blast
  from Cons.prems obtain a b where ab: "seg_start e = Some a" "seg_end e = Some b"
    by auto
  from Cons.prems have t: "seg_classification e = Some ''Relevant'' \<longrightarrow> seg_type e = Some ''speech''"
    by simp
  show ?case
  proof (cases "seg_classification e = Some ''Relevant''")
    case True
    with t have "seg_type e = Some ''speech''" by simp
    with True p m ab show ?thesis by simp
  next
    case False
    with p m show ?thesis by simp
  qed
qed

text \<open>
  C1. A labelled timeline of the program is what \<^verbatim>\<open>classify\<close> leaves in the file after
  \<^verbatim>\<open>merge_and_save_json\<close> has stored the speech entries of \<^verbatim>\<open>process_video\<close> and the
  silence entries of \<^verbatim>\<open>parse_silence_data\<close>, for any transcription, any diagnostic text
  and any classifier. On every such timeline the KeepPlan that \<^verbatim>\<open>trim_segments\<close> computes
  is exactly the list of the (start, end) pairs of the entries of kind speech with
  classification \<open>Relevant\<close>, in the order of the timeline, and it is the plan that
  \<^verbatim>\<open>trim_segments\<close> goes on with.
\<close>

theorem keep_plan_of_labelled_timeline:
  assumes "merge_and_save_json (process_video transcription)
             (parse_silence_data float ffmpeg_output) w0 = Inr w1"
    and "classify predict w1 = Inr w2"
  shows "\<exists>timeline plan.
            output_json w2 = Some (ListDoc timeline)
          \<and> map (\<lambda>(start, end'). (Some start, Some end')) plan
            = map (\<lambda>e. (seg_start e, seg_end e))
                (filter (\<lambda>e. seg_type e = Some ''speech''
                           \<and> seg_classification e = Some ''Relevant'') timeline)
          \<and> keep_segments_of (ListDoc timeline) = Inr plan
          \<and> trim_segments str input_vid_path output_vid_path w2
            = (if plan = [] then
                 Inr (w2\<lparr>events := events w2 @ [Printed NoRelevantSegments]\<rparr>, None)
               else if ffmpeg_installed w2 then
                 Inr (w2\<lparr>events := events w2 @
                          [Ran (trim_command str input_vid_path output_vid_path plan),
                           Printed (TrimmedSaved output_vid_path)]\<rparr>,
                      Some output_vid_path)
               else Inl FileNotFoundError)"
proof -
  let ?A = "process_video transcription"
  let ?B = "parse_silence_data float ffmpeg_output"
  let ?r = "sort_key (\<lambda>x. the (seg_start x)) (?A @ ?B)"
  have all: "list_all (\<lambda>x. seg_start x \<noteq> None) (?A @ ?B)"
    unfolding list_all_iff using built_segments(1) by blast
  with assms(1) have w1: "output_json w1 = Some (ListDoc ?r)"
    by (auto simp: merge_and_save_json_eq)
  obtain labelled where labelled: "output_json w2 = Some (ListDoc labelled)"
    and len: "length labelled = length ?r"
    and same: "\<forall>i. seg_type (?r ! i) \<noteq> Some ''speech'' \<longrightarrow> labelled ! i = ?r ! i"
    and frame: "\<forall>i. \<exists>c. labelled ! i = (?r ! i)\<lparr>seg_classification := c\<rparr>"
    using classify_list_result [OF assms(2) w1] by blast
  have inv: "\<forall>e\<in>set labelled. seg_start e \<noteq> None \<and> seg_end e \<noteq> None
             \<and> (seg_classification e = Some ''Relevant'' \<longrightarrow> seg_type e = Some ''speech'')"
  proof
    fix e
    assume "e \<in> set labelled"
    then obtain i where i: "i < length labelled" and e: "e = labelled ! i"
      by (auto simp: in_set_conv_nth)
    from i len have "i < length ?r" by simp
    then have "?r ! i \<in> set ?r" by (rule nth_mem)
    then have m: "?r ! i \<in> set (?A @ ?B)" by simp
    note b = built_segments(1) [OF m] built_segments(2) [OF m] built_segments(3) [OF m]
    from frame obtain c where c: "labelled ! i = (?r ! i)\<lparr>seg_classification := c\<rparr>"
      by blast
    show "seg_start e \<noteq> None \<and> seg_end e \<noteq> None
             \<and> (seg_classification e = Some ''Relevant'' \<longrightarrow> seg_type e = Some ''speech'')"
    proof (cases "seg_type (?r ! i) = Some ''speech''")
      case True
      with c e b show ?thesis by simp
    next
      case False
      with same have "labelled ! i = ?r ! i" by blast
      with e b show ?thesis by simp
    qed
  qed
  from keep_plan_of_typed_labels [OF inv] obtain plan where
    p: "keep_segments labelled = Inr plan"
    and m: "map (\<lambda>(start, end'). (Some start, Some end')) plan
             = map (\<lambda>e. (seg_start e, seg_end e))
                 (filter (\<lambda>e. seg_type e = Some ''speech''
                            \<and> seg_classification e = Some ''Relevant'') labelled)"
    by blast
  from p have k: "keep_segments_of (ListDoc labelled) = Inr plan"
    by (simp add: keep_segments_of_def)
  from labelled k have t: "trim_segments str input_vid_path output_vid_path w2
            = (if plan = [] then
                 Inr (w2\<lparr>events := events w2 @ [Printed NoRelevantSegments]\<rparr>, None)
               else if ffmpeg_installed w2 then
                 Inr (w2\<lparr>events := events w2 @
                          [Ran (trim_command str input_vid_path output_vid_path plan),
                           Printed (TrimmedSaved output_vid_path)]\<rparr>,
                      Some output_vid_path)
               else Inl FileNotFoundError)"
    by (simp add: trim_segments_def)
  from labelled m k t show ?thesis by blast
qed

text \<open>
  At a concrete input: three transcribed segments and one detected silence; the
  classifier rejects the second segment. The plan holds the first and the third segment
  and not the silence.
\<close>

theorem keep_plan_of_labelled_timeline_witness:
  "merge_and_save_json (process_video [(0::int, 2::int, ''intro''), (3, 7, ''ad''), (7, 9, ''content'')])
       (parse_silence_data (\<lambda>t. if t = ''2.0'' then 2 else 3) ''silence_start: 2.0 | silence_end: 3.0 | '')
       \<lparr>model_file = True, vectorizer_file = True, ffmpeg_installed = True,
        output_json = None,
        events = []\<rparr>
     = Inr \<lparr>model_file = True, vectorizer_file = True, ffmpeg_installed = True,
        output_json = Some (ListDoc [speech (0::int) 2 ''intro'', silence 2 3, speech 3 7 ''ad'', speech 7 9 ''content'']),
        events = [Wrote ''output.json'', Printed MergedSaved]\<rparr>
   \<and> classify (\<lambda>texts. map (\<lambda>t. if t = ''ad'' then 0 else 1) texts)
       \<lparr>model_file = True, vectorizer_file = True, ffmpeg_installed = True,
        output_json = Some (ListDoc [speech (0::int) 2 ''intro'', silence 2 3, speech 3 7 ''ad'', speech 7 9 ''content'']),
        events = [Wrote ''output.json'', Printed MergedSaved]\<rparr>
     = Inr \<lparr>model_file = True, vectorizer_file = True, ffmpeg_installed = True,
        output_json = Some (ListDoc
          [(speech (0::int) 2 ''intro'')\<lparr>seg_classification := Some ''Relevant''\<rparr>,
           silence 2 3,
           (speech 3 7 ''ad'')\<lparr>seg_classification := Some ''Irrelevant''\<rparr>,
           (speech 7 9 ''content'')\<lparr>seg_classification := Some ''Relevant''\<rparr>]),
        events = [Wrote ''output.json'', Printed MergedSaved, Printed LoadingModel,
                  Printed Transforming, Printed Updating, Wrote ''output.json'',
                  Printed ClassificationCompleted]\<rparr>
   \<and> keep_segments_of (ListDoc
          [(speech (0::int) 2 ''intro'')\<lparr>seg_classification := Some ''Relevant''\<rparr>,
           silence 2 3,
           (speech 3 7 ''ad'')\<lparr>seg_classification := Some ''Irrelevant''\<rparr>,
           (speech 7 9 ''content'')\<lparr>seg_classification := Some ''Relevant''\<rparr>])
     = Inr [(0, 2), (7, 9)]
   \<and> (\<exists>timeline plan.
            output_json \<lparr>model_file = True, vectorizer_file = True, ffmpeg_installed = True,
        output_json = Some (ListDoc
          [(speech (0::int) 2 ''intro'')\<lparr>seg_classification := Some ''Relevant''\<rparr>,
           silence 2 3,
           (speech 3 7 ''ad'')\<lparr>seg_classification := Some ''Irrelevant''\<rparr>,
           (speech 7 9 ''content'')\<lparr>seg_classification := Some ''Relevant''\<rparr>]),
        events = [Wrote ''output.json'', Printed MergedSaved, Printed LoadingModel,
                  Printed Transforming, Printed Updating, Wrote ''output.json'',
                  Printed ClassificationCompleted]\<rparr> = Some (ListDoc timeline)
          \<and> map (\<lambda>(start, end'). (Some start, Some end')) plan
            = map (\<lambda>e. (seg_start e, seg_end e))
                (filter (\<lambda>e. seg_type e = Some ''speech''
                           \<and> seg_classification e = Some ''Relevant'') timeline)
          \<and> keep_segments_of (ListDoc timeline) = Inr plan
          \<and> trim_segments (\<lambda>n. show_nat (nat n)) ''input.mp4'' ''output_trimmed.mp4''
              \<lparr>model_file = True, vectorizer_file = True, ffmpeg_installed = True,
        output_json = Some (ListDoc
          [(speech (0::int) 2 ''intro'')\<lparr>seg_classification := Some ''Relevant''\<rparr>,
           silence 2 3,
           (speech 3 7 ''ad'')\<lparr>seg_classification := Some ''Irrelevant''\<rparr>,
           (speech 7 9 ''content'')\<lparr>seg_classification := Some ''Relevant''\<rparr>]),
        events = [Wrote ''output.json'', Printed MergedSaved, Printed LoadingModel,
                  Printed Transforming, Printed Updating, Wrote ''output.json'',
                  Printed ClassificationCompleted]\<rparr>
            = (if plan = [] then
                 Inr (\<lparr>model_file = True, vectorizer_file = True, ffmpeg_installed = True,
        output_json = Some (ListDoc
          [(speech (0::int) 2 ''intro'')\<lparr>seg_classification := Some ''Relevant''\<rparr>,
           silence 2 3,
           (speech 3 7 ''ad'')\<lparr>seg_classification := Some ''Irrelevant''\<rparr>,
           (speech 7 9 ''content'')\<lparr>seg_classification := Some ''Relevant''\<rparr>]),
        events = [Wrote ''output.json'', Printed MergedSaved, Printed LoadingModel,
                  Printed Transforming, Printed Updating, Wrote ''output.json'',
                  Printed ClassificationCompleted]\<rparr>\<lparr>events := events \<lparr>model_file = True, vectorizer_file = True, ffmpeg_installed = True,
        output_json = Some (ListDoc
          [(speech (0::int) 2 ''intro'')\<lparr>seg_classification := Some ''Relevant''\<rparr>,
           silence 2 3,
           (speech 3 7 ''ad'')\<lparr>seg_classification := Some ''Irrelevant''\<rparr>,
           (speech 7 9 ''content'')\<lparr>seg_classification := Some ''Relevant''\<rparr>]),
        events = [Wrote ''output.json'', Printed MergedSaved, Printed LoadingModel,
                  Printed Transforming, Printed Updating, Wrote ''output.json'',
                  Printed ClassificationCompleted]\<rparr> @ [Printed NoRelevantSegments]\<rparr>, None)
               else if ffmpeg_installed \<lparr>model_file = True, vectorizer_file = True, ffmpeg_installed = True,
        output_json = Some (ListDoc
          [(speech (0::int) 2 ''intro'')\<lparr>seg_classification := Some ''Relevant''\<rparr>,
           silence 2 3,
           (speech 3 7 ''ad'')\<lparr>seg_classification := Some ''Irrelevant''\<rparr>,
           (speech 7 9 ''content'')\<lparr>seg_classification := Some ''Relevant''\<rparr>]),
        events = [Wrote ''output.json'', Printed MergedSaved, Printed LoadingModel,
                  Printed Transforming, Printed Updating, Wrote ''output.json'',
                  Printed ClassificationCompleted]\<rparr> then
                 Inr (\<lparr>model_file = True, vectorizer_file = True, ffmpeg_installed = True,
        output_json = Some (ListDoc
          [(speech (0::int) 2 ''intro'')\<lparr>seg_classification := Some ''Relevant''\<rparr>,
           silence 2 3,
           (speech 3 7 ''ad'')\<lparr>seg_classification := Some ''Irrelevant''\<rparr>,
           (speech 7 9 ''content'')\<lparr>seg_classification := Some ''Relevant''\<rparr>]),
        events = [Wrote ''output.json'', Printed MergedSaved, Printed LoadingModel,
                  Printed Transforming, Printed Updating, Wrote ''output.json'',
                  Printed ClassificationCompleted]\<rparr>\<lparr>events := events \<lparr>model_file = True, vectorizer_file = True, ffmpeg_installed = True,
        output_json = Some (ListDoc
          [(speech (0::int) 2 ''intro'')\<lparr>seg_classification := Some ''Relevant''\<rparr>,
           silence 2 3,
           (speech 3 7 ''ad'')\<lparr>seg_classification := Some ''Irrelevant''\<rparr>,
           (speech 7 9 ''content'')\<lparr>seg_classification := Some ''Relevant''\<rparr>]),
        events = [Wrote ''output.json'', Printed MergedSaved, Printed LoadingModel,
                  Printed Transforming, Printed Updating, Wrote ''output.json'',
                  Printed ClassificationCompleted]\<rparr> @
                          [Ran (trim_command (\<lambda>n. show_nat (nat n)) ''input.mp4'' ''output_trimmed.mp4'' plan),
                           Printed (TrimmedSaved ''output_trimmed.mp4'')]\<rparr>,
                      Some ''output_trimmed.mp4'')
               else Inl FileNotFoundError))"
  (is "?H1 \<and> ?H2 \<and> ?V \<and> ?C")
proof -
  have p: "parse_silence_data (\<lambda>t. if t = ''2.0'' then 2 else 3) ''silence_start: 2.0 | silence_end: 3.0 | ''
           = [silence (2::int) 3]"
    by (simp add: parse_silence_data_def match_at_def match_number_def is_digit_def)
  have h1: ?H1
    unfolding p
    by (simp add: merge_and_save_json_eq process_video_def speech_def silence_def)
  have h2: ?H2
    by (simp add: classify_def segments_of_def speech_segments_def texts_of_def
        label_segments_def set_label_def with_segments_def speech_def silence_def)
  have v: ?V
    by (simp add: keep_segments_of_def speech_def silence_def)
  from keep_plan_of_labelled_timeline [OF h1 h2, of "(\<lambda>n. show_nat (nat n))" "''input.mp4''" "''output_trimmed.mp4''"]
  have c: ?C .
  from v c have 1: "?V \<and> ?C" by (rule conjI)
  from h2 1 have 2: "?H2 \<and> ?V \<and> ?C" by (rule conjI)
  from h1 2 show ?thesis by (rule conjI)
qed

section \<open>Properties of the filter-graph generator\<close>

lemma map_enumerate_nth:
  "map f (enumerate 0 xs) = map (\<lambda>i. f (i, xs ! i)) [0..<length xs]"
  by (rule nth_equalityI) (simp_all add: nth_enumerate_eq)

lemma concat_map_concat_map:
  "concat (map f (concat (map g xs))) = concat (map (\<lambda>x. concat (map f (g x))) xs)"
  by (induction xs) auto

lemma filter_graph_is_render:
  "filter_complex str keep @ concat_v keep = render_graph show_nat str (spec_graph keep)"
proof -
  have "filter_complex str keep
        = concat (map (\<lambda>i. concat (map (render_op show_nat str)
                     [VideoTrim i (fst (keep ! i)) (snd (keep ! i)),
                      AudioTrim i (fst (keep ! i)) (snd (keep ! i))])) [0..<length keep])"
    unfolding filter_complex_def map_enumerate_nth
    by (rule arg_cong [where f = concat], rule map_cong [OF refl])
      (simp add: case_prod_beta)
  moreover have "concat_v keep = render_op show_nat str (Concat [0..<length keep])"
    by (simp add: concat_v_def)
  ultimately show ?thesis
    by (simp add: render_graph_def spec_graph_def concat_map_concat_map)
qed

lemma length_trim_pairs:
  "length (concat (map (\<lambda>i. [a i, b i]) [0..<k])) = 2 * k"
  by (induction k) auto

lemma nth_trim_pairs:
  "i < k \<Longrightarrow> concat (map (\<lambda>i. [a i, b i]) [0..<k]) ! (2 * i) = a i
         \<and> concat (map (\<lambda>i. [a i, b i]) [0..<k]) ! (2 * i + 1) = b i"
proof (induction k)
  case 0
  then show ?case by simp
next
  case (Suc k)
  show ?case
  proof (cases "i < k")
    case True
    with Suc.IH show ?thesis
      by (simp add: nth_append length_trim_pairs)
  next
    case False
    with Suc.prems have "i = k" by simp
    then show ?thesis
      by (simp add: nth_append length_trim_pairs)
  qed
qed

lemma spec_graph_shape:
  "length (spec_graph keep) = 2 * length keep + 1"
  "spec_graph keep ! (2 * length keep) = Concat [0..<length keep]"
  "i < length keep \<Longrightarrow>
     spec_graph keep ! (2 * i) = VideoTrim i (fst (keep ! i)) (snd (keep ! i))
   \<and> spec_graph keep ! (2 * i + 1) = AudioTrim i (fst (keep ! i)) (snd (keep ! i))"
proof -
  let ?p = "concat (map (\<lambda>i. [VideoTrim i (fst (keep ! i)) (snd (keep ! i)),
                        AudioTrim i (fst (keep ! i)) (snd (keep ! i))]) [0..<length keep])"
  have l: "length ?p = 2 * length keep" by (rule length_trim_pairs)
  show "length (spec_graph keep) = 2 * length keep + 1"
    by (simp add: spec_graph_def l)
  show "spec_graph keep ! (2 * length keep) = Concat [0..<length keep]"
    unfolding spec_graph_def using l by (simp add: nth_append)
  assume i: "i < length keep"
  then have "2 * i < length ?p" "2 * i + 1 < length ?p" using l by simp_all
  then have "spec_graph keep ! (2 * i) = ?p ! (2 * i)"
    and "spec_graph keep ! (2 * i + 1) = ?p ! (2 * i + 1)"
    unfolding spec_graph_def by (simp_all add: nth_append)
  with nth_trim_pairs [OF i]
  show "spec_graph keep ! (2 * i) = VideoTrim i (fst (keep ! i)) (snd (keep ! i))
   \<and> spec_graph keep ! (2 * i + 1) = AudioTrim i (fst (keep ! i)) (snd (keep ! i))"
    by simp
qed

lemma digit_char_props:
  assumes "d < 10"
  shows "of_char (digit_char d) - 48 = d" and "digit_char d \<in> set ''0123456789''"
    and "digit_char d = CHR ''0'' \<longleftrightarrow> d = 0"
proof -
  from assms have "d = 0 \<or> d = 1 \<or> d = 2 \<or> d = 3 \<or> d = 4 \<or> d = 5 \<or> d = 6 \<or> d = 7
      \<or> d = 8 \<or> d = 9"
    by arith
  then show "of_char (digit_char d) - 48 = d" and "digit_char d \<in> set ''0123456789''"
    and "digit_char d = CHR ''0'' \<longleftrightarrow> d = 0"
    by (auto simp: digit_char_def)
qed

lemma decimal_value_snoc:
  "decimal_value (ds @ [c]) = 10 * decimal_value ds + (of_char c - 48)"
  by (simp add: decimal_value_def)

lemma show_nat_not_empty:
  "show_nat n \<noteq> []"
  by (subst show_nat.simps) simp

lemma show_nat_digits:
  "set (show_nat n) \<subseteq> set ''0123456789''"
proof (induction n rule: show_nat.induct)
  case (1 n)
  show ?case
  proof (cases "n < 10")
    case True
    with digit_char_props(2) [of n] show ?thesis
      by (subst show_nat.simps) simp
  next
    case False
    have "n mod 10 < 10" by simp
    from digit_char_props(2) [OF this] "1.IH" [OF False] False show ?thesis
      by (subst show_nat.simps) simp
  qed
qed

lemma decimal_value_show_nat:
  "decimal_value (show_nat n) = n"
proof (induction n rule: show_nat.induct)
  case (1 n)
  show ?case
  proof (cases "n < 10")
    case True
    with digit_char_props(1) [of n] show ?thesis
      by (subst show_nat.simps) (simp add: decimal_value_def)
  next
    case False
    have "n mod 10 < 10" by simp
    from digit_char_props(1) [OF this] "1.IH" [OF False] False show ?thesis
      by (subst show_nat.simps) (simp add: decimal_value_snoc)
  qed
qed

lemma show_nat_no_leading_zero:
  "n \<noteq> 0 \<Longrightarrow> hd (show_nat n) \<noteq> CHR ''0''"
proof (induction n rule: show_nat.induct)
  case (1 n)
  show ?case
  proof (cases "n < 10")
    case True
    with digit_char_props(3) [of n] "1.prems" show ?thesis
      by (subst show_nat.simps) simp
  next
    case False
    then have "n div 10 \<noteq> 0" by simp
    from "1.IH" [OF False this] False show ?thesis
      by (subst show_nat.simps) (simp add: show_nat_not_empty)
  qed
qed

lemma inj_show_nat:
  "inj show_nat"
  by (rule inj_on_inverseI [where g = decimal_value]) (rule decimal_value_show_nat)

text \<open>
  C2. For a KeepPlan of length \<open>K \<ge> 1\<close>, when the transcoder can be started,
  \<^verbatim>\<open>trim_segments\<close> starts it once, and the filter-graph string it passes is the text of a
  graph \<open>g\<close> of \<open>2 * K + 1\<close> operations: for each \<open>i < K\<close>, at positions \<open>2 * i\<close> and
  \<open>2 * i + 1\<close>, the video trim and the audio trim with index \<open>i\<close> and the bounds of the
  \<open>i\<close>-th entry of the plan, and as last operation the one concatenation, which names the
  index pairs \<open>0, ..., K - 1\<close> in this order, each once. In the text, the index \<open>n\<close> is
  written as its decimal numeral: a non-empty string of digits that denotes \<open>n\<close> and has no
  leading zero, so that different indices give different pad names.
\<close>

theorem trim_runs_the_specified_graph:
  assumes "output_json w = Some data" and "keep_segments_of data = Inr keep" and "keep \<noteq> []"
    and "ffmpeg_installed w"
  shows "(\<exists>g. trim_segments str input_vid_path output_vid_path w
             = Inr (w\<lparr>events := events w @
                      [Ran [''ffmpeg'', ''-i'', input_vid_path, ''-filter_complex'',
                            render_graph show_nat str g,
                            ''-map'', ''[v]'', ''-map'', ''[a]'', output_vid_path, ''-y''],
                       Printed (TrimmedSaved output_vid_path)]\<rparr>,
                    Some output_vid_path)
           \<and> length g = 2 * length keep + 1
           \<and> (\<forall>i<length keep.
                 g ! (2 * i) = VideoTrim i (fst (keep ! i)) (snd (keep ! i))
               \<and> g ! (2 * i + 1) = AudioTrim i (fst (keep ! i)) (snd (keep ! i)))
           \<and> g ! (2 * length keep) = Concat [0..<length keep])
       \<and> (\<forall>n. show_nat n \<noteq> [] \<and> set (show_nat n) \<subseteq> set ''0123456789''
                \<and> decimal_value (show_nat n) = n
                \<and> (n \<noteq> 0 \<longrightarrow> hd (show_nat n) \<noteq> CHR ''0''))
       \<and> inj show_nat"
proof -
  from assms have "trim_segments str input_vid_path output_vid_path w
             = Inr (w\<lparr>events := events w @
                      [Ran [''ffmpeg'', ''-i'', input_vid_path, ''-filter_complex'',
                            render_graph show_nat str (spec_graph keep),
                            ''-map'', ''[v]'', ''-map'', ''[a]'', output_vid_path, ''-y''],
                       Printed (TrimmedSaved output_vid_path)]\<rparr>,
                    Some output_vid_path)"
    by (simp add: trim_segments_def trim_command_def filter_graph_is_render)
  with spec_graph_shape(1) [of keep] spec_graph_shape(2) [of keep]
    spec_graph_shape(3) [of _ keep]
  have g: "\<exists>g. trim_segments str input_vid_path output_vid_path w
             = Inr (w\<lparr>events := events w @
                      [Ran [''ffmpeg'', ''-i'', input_vid_path, ''-filter_complex'',
                            render_graph show_nat str g,
                            ''-map'', ''[v]'', ''-map'', ''[a]'', output_vid_path, ''-y''],
                       Printed (TrimmedSaved output_vid_path)]\<rparr>,
                    Some output_vid_path)
           \<and> length g = 2 * length keep + 1
           \<and> (\<forall>i<length keep.
                 g ! (2 * i) = VideoTrim i (fst (keep ! i)) (snd (keep ! i))
               \<and> g ! (2 * i + 1) = AudioTrim i (fst (keep ! i)) (snd (keep ! i)))
           \<and> g ! (2 * length keep) = Concat [0..<length keep]"
    by (intro exI [of _ "spec_graph keep"]) simp
  have l: "\<forall>n. show_nat n \<noteq> [] \<and> set (show_nat n) \<subseteq> set ''0123456789''
                \<and> decimal_value (show_nat n) = n
                \<and> (n \<noteq> 0 \<longrightarrow> hd (show_nat n) \<noteq> CHR ''0'')"
    using show_nat_not_empty show_nat_digits decimal_value_show_nat show_nat_no_leading_zero
    by blast
  from g l inj_show_nat show ?thesis
    by (intro conjI)
qed

text \<open>
  At a concrete input: the plan \<open>[(0, 2), (7, 9)]\<close>, with whole numbers printed in decimal,
  gives the pads \<open>v0\<close>, \<open>a0\<close>, \<open>v1\<close>, \<open>a1\<close> and the count \<open>n=2\<close>.
\<close>

theorem trim_runs_the_specified_graph_witness:
  "output_json \<lparr>model_file = True, vectorizer_file = True, ffmpeg_installed = True,
      output_json = Some (ListDoc
       [(speech (0::int) 2 ''intro'')\<lparr>seg_classification := Some ''Relevant''\<rparr>,
        silence 2 3,
        (speech 3 7 ''ad'')\<lparr>seg_classification := Some ''Irrelevant''\<rparr>,
        (speech 7 9 ''content'')\<lparr>seg_classification := Some ''Relevant''\<rparr>]),
      events = []\<rparr>
     = Some (ListDoc
       [(speech (0::int) 2 ''intro'')\<lparr>seg_classification := Some ''Relevant''\<rparr>,
        silence 2 3,
        (speech 3 7 ''ad'')\<lparr>seg_classification := Some ''Irrelevant''\<rparr>,
        (speech 7 9 ''content'')\<lparr>seg_classification := Some ''Relevant''\<rparr>])
   \<and> keep_segments_of (ListDoc
       [(speech (0::int) 2 ''intro'')\<lparr>seg_classification := Some ''Relevant''\<rparr>,
        silence 2 3,
        (speech 3 7 ''ad'')\<lparr>seg_classification := Some ''Irrelevant''\<rparr>,
        (speech 7 9 ''content'')\<lparr>seg_classification := Some ''Relevant''\<rparr>]) = Inr [(0::int, 2::int), (7, 9)]
   \<and> [(0::int, 2::int), (7, 9)] \<noteq> []
   \<and> ffmpeg_installed \<lparr>model_file = True, vectorizer_file = True, ffmpeg_installed = True,
      output_json = Some (ListDoc
       [(speech (0::int) 2 ''intro'')\<lparr>seg_classification := Some ''Relevant''\<rparr>,
        silence 2 3,
        (speech 3 7 ''ad'')\<lparr>seg_classification := Some ''Irrelevant''\<rparr>,
        (speech 7 9 ''content'')\<lparr>seg_classification := Some ''Relevant''\<rparr>]),
      events = []\<rparr>
   \<and> trim_segments (\<lambda>n. show_nat (nat n)) ''input.mp4'' ''output_trimmed.mp4''
            \<lparr>model_file = True, vectorizer_file = True, ffmpeg_installed = True,
      output_json = Some (ListDoc
       [(speech (0::int) 2 ''intro'')\<lparr>seg_classification := Some ''Relevant''\<rparr>,
        silence 2 3,
        (speech 3 7 ''ad'')\<lparr>seg_classification := Some ''Irrelevant''\<rparr>,
        (speech 7 9 ''content'')\<lparr>seg_classification := Some ''Relevant''\<rparr>]),
      events = []\<rparr>
     = Inr (\<lparr>model_file = True, vectorizer_file = True, ffmpeg_installed = True,
      output_json = Some (ListDoc
       [(speech (0::int) 2 ''intro'')\<lparr>seg_classification := Some ''Relevant''\<rparr>,
        silence 2 3,
        (speech 3 7 ''ad'')\<lparr>seg_classification := Some ''Irrelevant''\<rparr>,
        (speech 7 9 ''content'')\<lparr>seg_classification := Some ''Relevant''\<rparr>]),
      events = [Ran [''ffmpeg'', ''-i'', ''input.mp4'', ''-filter_complex'',
                     ''[0:v]trim=start=0:end=2,setpts=PTS-STARTPTS[v0]; ''
                     @ ''[0:a]atrim=start=0:end=2,asetpts=PTS-STARTPTS[a0]; ''
                     @ ''[0:v]trim=start=7:end=9,setpts=PTS-STARTPTS[v1]; ''
                     @ ''[0:a]atrim=start=7:end=9,asetpts=PTS-STARTPTS[a1]; ''
                     @ ''[v0][a0][v1][a1]concat=n=2:v=1:a=1 [v][a]'',
                     ''-map'', ''[v]'', ''-map'', ''[a]'', ''output_trimmed.mp4'', ''-y''],
                Printed (TrimmedSaved ''output_trimmed.mp4'')]\<rparr>,
            Some ''output_trimmed.mp4'')
   \<and> (\<exists>g. trim_segments (\<lambda>n. show_nat (nat n)) ''input.mp4'' ''output_trimmed.mp4''
            \<lparr>model_file = True, vectorizer_file = True, ffmpeg_installed = True,
      output_json = Some (ListDoc
       [(speech (0::int) 2 ''intro'')\<lparr>seg_classification := Some ''Relevant''\<rparr>,
        silence 2 3,
        (speech 3 7 ''ad'')\<lparr>seg_classification := Some ''Irrelevant''\<rparr>,
        (speech 7 9 ''content'')\<lparr>seg_classification := Some ''Relevant''\<rparr>]),
      events = []\<rparr>
          = Inr (\<lparr>model_file = True, vectorizer_file = True, ffmpeg_installed = True,
      output_json = Some (ListDoc
       [(speech (0::int) 2 ''intro'')\<lparr>seg_classification := Some ''Relevant''\<rparr>,
        silence 2 3,
        (speech 3 7 ''ad'')\<lparr>seg_classification := Some ''Irrelevant''\<rparr>,
        (speech 7 9 ''content'')\<lparr>seg_classification := Some ''Relevant''\<rparr>]),
      events = []\<rparr>\<lparr>events := events \<lparr>model_file = True, vectorizer_file = True, ffmpeg_installed = True,
      output_json = Some (ListDoc
       [(speech (0::int) 2 ''intro'')\<lparr>seg_classification := Some ''Relevant''\<rparr>,
        silence 2 3,
        (speech 3 7 ''ad'')\<lparr>seg_classification := Some ''Irrelevant''\<rparr>,
        (speech 7 9 ''content'')\<lparr>seg_classification := Some ''Relevant''\<rparr>]),
      events = []\<rparr> @
                   [Ran [''ffmpeg'', ''-i'', ''input.mp4'', ''-filter_complex'',
                         render_graph show_nat (\<lambda>n. show_nat (nat n)) g,
                         ''-map'', ''[v]'', ''-map'', ''[a]'', ''output_trimmed.mp4'', ''-y''],
                    Printed (TrimmedSaved ''output_trimmed.mp4'')]\<rparr>,
                 Some ''output_trimmed.mp4'')
        \<and> length g = 2 * length [(0::int, 2::int), (7, 9)] + 1
        \<and> (\<forall>i<length [(0::int, 2::int), (7, 9)].
              g ! (2 * i) = VideoTrim i (fst ([(0::int, 2::int), (7, 9)] ! i)) (snd ([(0::int, 2::int), (7, 9)] ! i))
            \<and> g ! (2 * i + 1) = AudioTrim i (fst ([(0::int, 2::int), (7, 9)] ! i)) (snd ([(0::int, 2::int), (7, 9)] ! i)))
        \<and> g ! (2 * length [(0::int, 2::int), (7, 9)]) = Concat [0..<length [(0::int, 2::int), (7, 9)]])
   \<and> (\<forall>n. show_nat n \<noteq> [] \<and> set (show_nat n) \<subseteq> set ''0123456789''
            \<and> decimal_value (show_nat n) = n
            \<and> (n \<noteq> 0 \<longrightarrow> hd (show_nat n) \<noteq> CHR ''0''))
   \<and> inj show_nat"
  (is "?H1 \<and> ?H2 \<and> ?H3 \<and> ?H4 \<and> ?V \<and> ?C")
proof -
  have h1: "output_json \<lparr>model_file = True, vectorizer_file = True, ffmpeg_installed = True,
      output_json = Some (ListDoc
       [(speech (0::int) 2 ''intro'')\<lparr>seg_classification := Some ''Relevant''\<rparr>,
        silence 2 3,
        (speech 3 7 ''ad'')\<lparr>seg_classification := Some ''Irrelevant''\<rparr>,
        (speech 7 9 ''content'')\<lparr>seg_classification := Some ''Relevant''\<rparr>]),
      events = []\<rparr>
     = Some (ListDoc
       [(speech (0::int) 2 ''intro'')\<lparr>seg_classification := Some ''Relevant''\<rparr>,
        silence 2 3,
        (speech 3 7 ''ad'')\<lparr>seg_classification := Some ''Irrelevant''\<rparr>,
        (speech 7 9 ''content'')\<lparr>seg_classification := Some ''Relevant''\<rparr>])"
    by simp
  have h2: "keep_segments_of (ListDoc
       [(speech (0::int) 2 ''intro'')\<lparr>seg_classification := Some ''Relevant''\<rparr>,
        silence 2 3,
        (speech 3 7 ''ad'')\<lparr>seg_classification := Some ''Irrelevant''\<rparr>,
        (speech 7 9 ''content'')\<lparr>seg_classification := Some ''Relevant''\<rparr>]) = Inr [(0::int, 2::int), (7, 9)]"
    by (simp add: keep_segments_of_def speech_def silence_def)
  have h3: "[(0::int, 2::int), (7, 9)] \<noteq> []"
    by simp
  have h4: "ffmpeg_installed \<lparr>model_file = True, vectorizer_file = True, ffmpeg_installed = True,
      output_json = Some (ListDoc
       [(speech (0::int) 2 ''intro'')\<lparr>seg_classification := Some ''Relevant''\<rparr>,
        silence 2 3,
        (speech 3 7 ''ad'')\<lparr>seg_classification := Some ''Irrelevant''\<rparr>,
        (speech 7 9 ''content'')\<lparr>seg_classification := Some ''Relevant''\<rparr>]),
      events = []\<rparr>"
    by simp
  have v: "trim_segments (\<lambda>n. show_nat (nat n)) ''input.mp4'' ''output_trimmed.mp4''
            \<lparr>model_file = True, vectorizer_file = True, ffmpeg_installed = True,
      output_json = Some (ListDoc
       [(speech (0::int) 2 ''intro'')\<lparr>seg_classification := Some ''Relevant''\<rparr>,
        silence 2 3,
        (speech 3 7 ''ad'')\<lparr>seg_classification := Some ''Irrelevant''\<rparr>,
        (speech 7 9 ''content'')\<lparr>seg_classification := Some ''Relevant''\<rparr>]),
      events = []\<rparr>
     = Inr (\<lparr>model_file = True, vectorizer_file = True, ffmpeg_installed = True,
      output_json = Some (ListDoc
       [(speech (0::int) 2 ''intro'')\<lparr>seg_classification := Some ''Relevant''\<rparr>,
        silence 2 3,
        (speech 3 7 ''ad'')\<lparr>seg_classification := Some ''Irrelevant''\<rparr>,
        (speech 7 9 ''content'')\<lparr>seg_classification := Some ''Relevant''\<rparr>]),
      events = [Ran [''ffmpeg'', ''-i'', ''input.mp4'', ''-filter_complex'',
                     ''[0:v]trim=start=0:end=2,setpts=PTS-STARTPTS[v0]; ''
                     @ ''[0:a]atrim=start=0:end=2,asetpts=PTS-STARTPTS[a0]; ''
                     @ ''[0:v]trim=start=7:end=9,setpts=PTS-STARTPTS[v1]; ''
                     @ ''[0:a]atrim=start=7:end=9,asetpts=PTS-STARTPTS[a1]; ''
                     @ ''[v0][a0][v1][a1]concat=n=2:v=1:a=1 [v][a]'',
                     ''-map'', ''[v]'', ''-map'', ''[a]'', ''output_trimmed.mp4'', ''-y''],
                Printed (TrimmedSaved ''output_trimmed.mp4'')]\<rparr>,
            Some ''output_trimmed.mp4'')"
    by (simp add: trim_segments_def keep_segments_of_def speech_def silence_def
        trim_command_def filter_complex_def concat_v_def enumerate_eq_zip upt_rec
        show_nat.simps digit_char_def)
  from trim_runs_the_specified_graph [OF h1 h2 h3 h4, of "(\<lambda>n. show_nat (nat n))" "''input.mp4''" "''output_trimmed.mp4''"]
  have c: ?C .
  from v c have 1: "?V \<and> ?C" by (rule conjI)
  from h4 1 have 2: "?H4 \<and> ?V \<and> ?C" by (rule conjI)
  from h3 2 have 3: "?H3 \<and> ?H4 \<and> ?V \<and> ?C" by (rule conjI)
  from h2 3 have 4: "?H2 \<and> ?H3 \<and> ?H4 \<and> ?V \<and> ?C" by (rule conjI)
  from h1 4 show ?thesis by (rule conjI)
qed

text \<open>The string for the plan \<open>[(0, 2), (7, 9)]\<close>, with whole numbers printed in decimal.\<close>

lemma filter_graph_example:
  "filter_complex (\<lambda>n. show_nat (nat n)) [(0::int, 2::int), (7, 9)] @ concat_v [(0::int, 2::int), (7, 9)]
   = ''[0:v]trim=start=0:end=2,setpts=PTS-STARTPTS[v0]; ''
     @ ''[0:a]atrim=start=0:end=2,asetpts=PTS-STARTPTS[a0]; ''
     @ ''[0:v]trim=start=7:end=9,setpts=PTS-STARTPTS[v1]; ''
     @ ''[0:a]atrim=start=7:end=9,asetpts=PTS-STARTPTS[a1]; ''
     @ ''[v0][a0][v1][a1]concat=n=2:v=1:a=1 [v][a]''"
  by (simp add: filter_complex_def concat_v_def enumerate_eq_zip upt_rec
      show_nat.simps digit_char_def)

end
